theory Spec2Isabelle
  imports Complex_Main "HOL-Library.Word"
begin

section \<open>The control-law core of rosplane2 (controller_example) and its parameter manager\<close>

text \<open>
  The C++ sources compute on \<^verbatim>\<open>float\<close> and \<^verbatim>\<open>double\<close>. The embedding takes
  both as \<^typ>\<open>real\<close>: comparisons, branches, assignments and the order of the
  arithmetic are those of the source, the arithmetic itself is exact (no rounding, no
  infinities, no NaN). The member variables of the class end in an underscore in the source
  (\<^verbatim>\<open>c_error_\<close>); a record field cannot, so each field drops that last underscore
  (\<^verbatim>\<open>r_integrator\<close> has none in the source either).
\<close>

subsection \<open>Persistent loop state and parameters\<close>

text \<open>The member variables of \<^verbatim>\<open>controller_example\<close>: one previous error and one integrator
  per loop, and a filtered derivative for the airspeed and the altitude loop.\<close>

record controller_example =
  c_error :: real
  c_integrator :: real
  r_error :: real
  r_integrator :: real
  p_error :: real
  p_integrator :: real
  at_error :: real
  at_integrator :: real
  at_differentiator :: real
  a_error :: real
  a_integrator :: real
  a_differentiator :: real

text \<open>The struct \<^verbatim>\<open>params_s\<close> is declared in a header outside the sources at hand; the
  record has the fields the control laws read, all of them floating-point numbers.\<close>

record params_s =
  alt_hz :: real
  tau :: real
  c_kp :: real
  c_kd :: real
  c_ki :: real
  r_kp :: real
  r_kd :: real
  r_ki :: real
  p_kp :: real
  p_kd :: real
  p_ki :: real
  a_t_kp :: real
  a_t_kd :: real
  a_t_ki :: real
  a_kp :: real
  a_kd :: real
  a_ki :: real
  trim_e :: real
  pwm_rad_e :: real
  trim_t :: real
  max_e :: real
  max_a :: real
  max_t :: real
  max_takeoff_throttle :: real

subsection \<open>Constructor and saturation\<close>

text \<open>
  The constructor body assigns six members. The class declaration is not part of the
  sources at hand, so the contents of the object before the body runs are the argument.
\<close>

definition controller_example_ctor :: "controller_example \<Rightarrow> controller_example" where
  "controller_example_ctor storage =
     storage\<lparr>c_error := 0, c_integrator := 0, r_error := 0, r_integrator := 0,
             p_error := 0, p_integrator := 0\<rparr>"

definition sat :: "real \<Rightarrow> real \<Rightarrow> real \<Rightarrow> real" where
  "sat val up_limit low_limit =
     (if val > up_limit then up_limit
      else if val < low_limit then low_limit
      else val)"

subsection \<open>The five loops\<close>

text \<open>Each loop takes the controller state and returns its output with the new state.\<close>

definition course_hold ::
  "real \<Rightarrow> real \<Rightarrow> real \<Rightarrow> real \<Rightarrow> params_s \<Rightarrow> real \<Rightarrow> controller_example
     \<Rightarrow> real \<times> controller_example" where
  "course_hold chi_c chi phi_ff r params Ts s =
     (let error = chi_c - chi;
          s = s\<lparr>c_integrator := c_integrator s + (Ts / 2.0) * (error + c_error s)\<rparr>;
          up = c_kp params * error;
          ui = c_ki params * c_integrator s;
          ud = c_kd params * r;
          phi_c = sat (up + ui + ud + phi_ff) (15.0 * 3.14 / 180.0) (- 15.0 * 3.14 / 180.0);
          s = (if \<bar>c_ki params\<bar> \<ge> 0.00001
               then (let phi_c_unsat = up + ui + ud + phi_ff
                     in s\<lparr>c_integrator :=
                            c_integrator s + (Ts / c_ki params) * (phi_c - phi_c_unsat)\<rparr>)
               else s);
          s = s\<lparr>c_error := error\<rparr>
      in (phi_c, s))"

definition roll_hold ::
  "real \<Rightarrow> real \<Rightarrow> real \<Rightarrow> params_s \<Rightarrow> real \<Rightarrow> controller_example
     \<Rightarrow> real \<times> controller_example" where
  "roll_hold phi_c phi p params Ts s =
     (let error = phi_c - phi;
          s = s\<lparr>r_integrator := r_integrator s + (Ts / 2.0) * (error + r_error s)\<rparr>;
          up = r_kp params * error;
          ui = r_ki params * r_integrator s;
          ud = r_kd params * p;
          delta_a = sat (up + ui - ud) (max_a params) (- max_a params);
          s = (if \<bar>r_ki params\<bar> \<ge> 0.00001
               then (let delta_a_unsat = up + ui - ud
                     in s\<lparr>r_integrator :=
                            r_integrator s + (Ts / r_ki params) * (delta_a - delta_a_unsat)\<rparr>)
               else s);
          s = s\<lparr>r_error := error\<rparr>
      in (delta_a, s))"

definition pitch_hold ::
  "real \<Rightarrow> real \<Rightarrow> real \<Rightarrow> params_s \<Rightarrow> real \<Rightarrow> controller_example
     \<Rightarrow> real \<times> controller_example" where
  "pitch_hold theta_c theta q params Ts s =
     (let error = theta_c - theta;
          s = s\<lparr>p_integrator := p_integrator s + (Ts / 2.0) * (error + p_error s)\<rparr>;
          up = p_kp params * error;
          ui = p_ki params * p_integrator s;
          ud = p_kd params * q;
          delta_e = sat (trim_e params / pwm_rad_e params + up + ui - ud)
                        (max_e params) (- max_e params);
          s = (if \<bar>p_ki params\<bar> \<ge> 0.00001
               then (let delta_e_unsat = trim_e params / pwm_rad_e params + up + ui - ud
                     in s\<lparr>p_integrator :=
                            p_integrator s + (Ts / p_ki params) * (delta_e - delta_e_unsat)\<rparr>)
               else s);
          s = s\<lparr>p_error := error\<rparr>
      in (- delta_e, s))"

definition airspeed_with_throttle_hold ::
  "real \<Rightarrow> real \<Rightarrow> params_s \<Rightarrow> real \<Rightarrow> controller_example
     \<Rightarrow> real \<times> controller_example" where
  "airspeed_with_throttle_hold Va_c Va params Ts s =
     (let error = Va_c - Va;
          s = s\<lparr>at_integrator := at_integrator s + (Ts / 2.0) * (error + at_error s)\<rparr>;
          s = s\<lparr>at_differentiator :=
                  (2.0 * tau params - Ts) / (2.0 * tau params + Ts) * at_differentiator s
                  + (2.0 / (2.0 * tau params + Ts)) * (error - at_error s)\<rparr>;
          up = a_t_kp params * error;
          ui = a_t_ki params * at_integrator s;
          ud = a_t_kd params * at_differentiator s;
          delta_t = sat (trim_t params + up + ui + ud) (max_t params) 0;
          s = (if \<bar>a_t_ki params\<bar> \<ge> 0.00001
               then (let delta_t_unsat = trim_t params + up + ui + ud
                     in s\<lparr>at_integrator :=
                            at_integrator s + (Ts / a_t_ki params) * (delta_t - delta_t_unsat)\<rparr>)
               else s);
          s = s\<lparr>at_error := error\<rparr>
      in (delta_t, s))"

definition altitude_hold_control ::
  "real \<Rightarrow> real \<Rightarrow> params_s \<Rightarrow> real \<Rightarrow> controller_example
     \<Rightarrow> real \<times> controller_example" where
  "altitude_hold_control h_c h params Ts s =
     (let error = h_c - h;
          s = (if - alt_hz params + 0.01 < error \<and> error < alt_hz params - 0.01
               then s\<lparr>a_integrator := a_integrator s + (Ts / 2.0) * (error + a_error s)\<rparr>
               else s\<lparr>a_integrator := 0.0\<rparr>);
          s = s\<lparr>a_differentiator :=
                  (2.0 * tau params - Ts) / (2.0 * tau params + Ts) * a_differentiator s
                  + (2.0 / (2.0 * tau params + Ts)) * (error - a_error s)\<rparr>;
          up = a_kp params * error;
          ui = a_ki params * a_integrator s;
          ud = a_kd params * a_differentiator s;
          theta_c = sat (up + ui + ud) (10.0 * 3.14 / 180.0) (- 10.0 * 3.14 / 180.0);
          s = (if \<bar>a_ki params\<bar> \<ge> 0.00001
               then (let theta_c_unsat = up + ui + ud
                     in s\<lparr>a_integrator :=
                            a_integrator s + (Ts / a_ki params) * (theta_c - theta_c_unsat)\<rparr>)
               else s);
          s = s\<lparr>at_error := error\<rparr>
      in (theta_c, s))"

subsection \<open>Phase-exit hooks\<close>

definition take_off_exit :: "controller_example \<Rightarrow> controller_example" where
  "take_off_exit s = s"

definition climb_exit :: "controller_example \<Rightarrow> controller_example" where
  "climb_exit s =
     s\<lparr>at_error := 0, at_integrator := 0, at_differentiator := 0,
       a_error := 0, a_integrator := 0, a_differentiator := 0\<rparr>"

definition altitude_hold_exit :: "controller_example \<Rightarrow> controller_example" where
  "altitude_hold_exit s = s\<lparr>c_integrator := 0\<rparr>"

text \<open>Degrees in radians, for the bounds the loops are specified with.\<close>

definition degrees :: "real \<Rightarrow> real" where
  "degrees d = d * pi / 180"

text \<open>A run of one loop over a list of per-tick inputs, the state threaded through.\<close>

fun run_ticks :: "('i \<Rightarrow> 's \<Rightarrow> 'o \<times> 's) \<Rightarrow> 'i list \<Rightarrow> 's \<Rightarrow> 'o list \<times> 's" where
  "run_ticks tick [] s = ([], s)"
| "run_ticks tick (x # xs) s =
     (case tick x s of (y, s') \<Rightarrow>
        (case run_ticks tick xs s' of (ys, s'') \<Rightarrow> (y # ys, s'')))"

subsection \<open>The loops on floating-point values\<close>

text \<open>
  How a loop's output relates to its saturation limits depends on what the loop does with
  infinities and NaN, which the real numbers do not have. The five loops are therefore given
  a second time, statement for statement, on values that are a real number, plus or minus
  infinity, or NaN. Comparisons and the arithmetic on infinities and NaN are those of
  IEEE 754: a comparison with NaN is false; infinity minus infinity, zero times infinity,
  zero by zero and infinity by infinity are NaN. An operation on finite values gives the
  exact result, or an infinity when the result is beyond the largest finite number of the
  format it is computed in. Rounding to 24 or 53 bits, subnormal numbers and the sign of
  zero are not modelled (a zero divisor counts as positive).
\<close>

datatype fval = Num real | PInf | NInf | NaN

fun fneg :: "fval \<Rightarrow> fval" where
  "fneg (Num x) = Num (- x)"
| "fneg PInf = NInf"
| "fneg NInf = PInf"
| "fneg NaN = NaN"

fun fabs :: "fval \<Rightarrow> fval" where
  "fabs (Num x) = Num \<bar>x\<bar>"
| "fabs PInf = PInf"
| "fabs NInf = PInf"
| "fabs NaN = NaN"

fun fgt :: "fval \<Rightarrow> fval \<Rightarrow> bool" where
  "fgt NaN b = False"
| "fgt a NaN = False"
| "fgt (Num x) (Num y) = (x > y)"
| "fgt PInf PInf = False"
| "fgt PInf b = True"
| "fgt a PInf = False"
| "fgt NInf b = False"
| "fgt a NInf = True"

definition flt :: "fval \<Rightarrow> fval \<Rightarrow> bool" where
  "flt a b = fgt b a"

definition fge :: "fval \<Rightarrow> fval \<Rightarrow> bool" where
  "fge a b = (a \<noteq> NaN \<and> b \<noteq> NaN \<and> (fgt a b \<or> a = b))"

fun xadd :: "fval \<Rightarrow> fval \<Rightarrow> fval" where
  "xadd NaN b = NaN"
| "xadd a NaN = NaN"
| "xadd (Num x) (Num y) = Num (x + y)"
| "xadd PInf NInf = NaN"
| "xadd NInf PInf = NaN"
| "xadd PInf b = PInf"
| "xadd NInf b = NInf"
| "xadd a PInf = PInf"
| "xadd a NInf = NInf"

definition xsub :: "fval \<Rightarrow> fval \<Rightarrow> fval" where
  "xsub a b = xadd a (fneg b)"

fun xmul :: "fval \<Rightarrow> fval \<Rightarrow> fval" where
  "xmul NaN b = NaN"
| "xmul a NaN = NaN"
| "xmul (Num x) (Num y) = Num (x * y)"
| "xmul PInf (Num y) = (if y = 0 then NaN else if y > 0 then PInf else NInf)"
| "xmul NInf (Num y) = (if y = 0 then NaN else if y > 0 then NInf else PInf)"
| "xmul (Num x) PInf = (if x = 0 then NaN else if x > 0 then PInf else NInf)"
| "xmul (Num x) NInf = (if x = 0 then NaN else if x > 0 then NInf else PInf)"
| "xmul PInf PInf = PInf"
| "xmul PInf NInf = NInf"
| "xmul NInf PInf = NInf"
| "xmul NInf NInf = PInf"

fun xdiv :: "fval \<Rightarrow> fval \<Rightarrow> fval" where
  "xdiv NaN b = NaN"
| "xdiv a NaN = NaN"
| "xdiv (Num x) (Num y) =
     (if y = 0 then (if x = 0 then NaN else if x > 0 then PInf else NInf) else Num (x / y))"
| "xdiv (Num x) b = Num 0"
| "xdiv PInf (Num y) = (if y \<ge> 0 then PInf else NInf)"
| "xdiv NInf (Num y) = (if y \<ge> 0 then NInf else PInf)"
| "xdiv a b = NaN"

text \<open>The largest finite \<^verbatim>\<open>float\<close> and \<^verbatim>\<open>double\<close>,
  \<^verbatim>\<open>(2 - 2^-23) * 2^127\<close> and \<^verbatim>\<open>(2 - 2^-52) * 2^1023\<close>, and the conversion of a
  value to each format.\<close>

definition FLT_MAX :: real where
  "FLT_MAX = 340282346638528859811704183484516925440"

definition DBL_MAX :: real where
  "DBL_MAX = 179769313486231570814527423731704356798070567525844996598917476803157260780028538760589558632766878171540458953514382464234321326889464182768467546703537516986049910576551282076245490090389328944075868508455133942304583236903222948165808559332123348274797826204144723168738177180919299881250404026184124858368"

fun overflow :: "real \<Rightarrow> fval \<Rightarrow> fval" where
  "overflow m (Num x) = (if x > m then PInf else if x < - m then NInf else Num x)"
| "overflow m v = v"

definition to_float :: "fval \<Rightarrow> fval" where
  "to_float v = overflow FLT_MAX v"

definition to_double :: "fval \<Rightarrow> fval" where
  "to_double v = overflow DBL_MAX v"

text \<open>
  The scalar arguments, the locals and the members of the loops are \<^verbatim>\<open>float\<close>. The
  fields of \<^verbatim>\<open>params_s\<close> are taken to be \<^verbatim>\<open>double\<close>, and so are the literals
  \<^verbatim>\<open>2.0\<close>, \<^verbatim>\<open>.01\<close> and \<^verbatim>\<open>0.00001\<close>. By the usual arithmetic conversions of C++ an
  operation on two floats is computed in \<^verbatim>\<open>float\<close> (\<open>fadd\<close>, \<open>fsub\<close>), one with a
  double operand in \<^verbatim>\<open>double\<close> (\<open>dadd\<close>, \<open>dsub\<close>, \<open>dmul\<close>, \<open>ddiv\<close>), and a double
  stored into a float or passed for a float parameter is converted (\<open>to_float\<close>).
\<close>

definition fadd :: "fval \<Rightarrow> fval \<Rightarrow> fval" where
  "fadd a b = to_float (xadd a b)"

definition fsub :: "fval \<Rightarrow> fval \<Rightarrow> fval" where
  "fsub a b = to_float (xsub a b)"

definition dadd :: "fval \<Rightarrow> fval \<Rightarrow> fval" where
  "dadd a b = to_double (xadd a b)"

definition dsub :: "fval \<Rightarrow> fval \<Rightarrow> fval" where
  "dsub a b = to_double (xsub a b)"

definition dmul :: "fval \<Rightarrow> fval \<Rightarrow> fval" where
  "dmul a b = to_double (xmul a b)"

definition ddiv :: "fval \<Rightarrow> fval \<Rightarrow> fval" where
  "ddiv a b = to_double (xdiv a b)"

definition sat_f :: "fval \<Rightarrow> fval \<Rightarrow> fval \<Rightarrow> fval" where
  "sat_f val up_limit low_limit =
     (if fgt val up_limit then up_limit
      else if flt val low_limit then low_limit
      else val)"

text \<open>The members and the parameters as floating-point values; the names carry the
  suffix \<open>_f\<close>.\<close>

record controller_example_f =
  c_error_f :: fval
  c_integrator_f :: fval
  r_error_f :: fval
  r_integrator_f :: fval
  p_error_f :: fval
  p_integrator_f :: fval
  at_error_f :: fval
  at_integrator_f :: fval
  at_differentiator_f :: fval
  a_error_f :: fval
  a_integrator_f :: fval
  a_differentiator_f :: fval

record params_f =
  alt_hz_f :: fval
  tau_f :: fval
  c_kp_f :: fval
  c_kd_f :: fval
  c_ki_f :: fval
  r_kp_f :: fval
  r_kd_f :: fval
  r_ki_f :: fval
  p_kp_f :: fval
  p_kd_f :: fval
  p_ki_f :: fval
  a_t_kp_f :: fval
  a_t_kd_f :: fval
  a_t_ki_f :: fval
  a_kp_f :: fval
  a_kd_f :: fval
  a_ki_f :: fval
  trim_e_f :: fval
  pwm_rad_e_f :: fval
  trim_t_f :: fval
  max_e_f :: fval
  max_a_f :: fval
  max_t_f :: fval

definition course_hold_f ::
  "fval \<Rightarrow> fval \<Rightarrow> fval \<Rightarrow> fval \<Rightarrow> params_f \<Rightarrow> fval \<Rightarrow> controller_example_f
     \<Rightarrow> fval \<times> controller_example_f" where
  "course_hold_f chi_c chi phi_ff r params Ts s =
     (let error = fsub chi_c chi;
          s = s\<lparr>c_integrator_f :=
                  to_float (dadd (c_integrator_f s)
                              (dmul (ddiv Ts (Num 2.0)) (fadd error (c_error_f s))))\<rparr>;
          up = to_float (dmul (c_kp_f params) error);
          ui = to_float (dmul (c_ki_f params) (c_integrator_f s));
          ud = to_float (dmul (c_kd_f params) r);
          phi_c = sat_f (fadd (fadd (fadd up ui) ud) phi_ff)
                    (to_float (Num (15.0 * 3.14 / 180.0)))
                    (to_float (Num (- 15.0 * 3.14 / 180.0)));
          s = (if fge (fabs (c_ki_f params)) (Num 0.00001)
               then (let phi_c_unsat = fadd (fadd (fadd up ui) ud) phi_ff
                     in s\<lparr>c_integrator_f :=
                            to_float (dadd (c_integrator_f s)
                                        (dmul (ddiv Ts (c_ki_f params))
                                              (fsub phi_c phi_c_unsat)))\<rparr>)
               else s);
          s = s\<lparr>c_error_f := error\<rparr>
      in (phi_c, s))"

definition roll_hold_f ::
  "fval \<Rightarrow> fval \<Rightarrow> fval \<Rightarrow> params_f \<Rightarrow> fval \<Rightarrow> controller_example_f
     \<Rightarrow> fval \<times> controller_example_f" where
  "roll_hold_f phi_c phi p params Ts s =
     (let error = fsub phi_c phi;
          s = s\<lparr>r_integrator_f :=
                  to_float (dadd (r_integrator_f s)
                              (dmul (ddiv Ts (Num 2.0)) (fadd error (r_error_f s))))\<rparr>;
          up = to_float (dmul (r_kp_f params) error);
          ui = to_float (dmul (r_ki_f params) (r_integrator_f s));
          ud = to_float (dmul (r_kd_f params) p);
          delta_a = sat_f (fsub (fadd up ui) ud)
                      (to_float (max_a_f params)) (to_float (fneg (max_a_f params)));
          s = (if fge (fabs (r_ki_f params)) (Num 0.00001)
               then (let delta_a_unsat = fsub (fadd up ui) ud
                     in s\<lparr>r_integrator_f :=
                            to_float (dadd (r_integrator_f s)
                                        (dmul (ddiv Ts (r_ki_f params))
                                              (fsub delta_a delta_a_unsat)))\<rparr>)
               else s);
          s = s\<lparr>r_error_f := error\<rparr>
      in (delta_a, s))"

definition pitch_hold_f ::
  "fval \<Rightarrow> fval \<Rightarrow> fval \<Rightarrow> params_f \<Rightarrow> fval \<Rightarrow> controller_example_f
     \<Rightarrow> fval \<times> controller_example_f" where
  "pitch_hold_f theta_c theta q params Ts s =
     (let error = fsub theta_c theta;
          s = s\<lparr>p_integrator_f :=
                  to_float (dadd (p_integrator_f s)
                              (dmul (ddiv Ts (Num 2.0)) (fadd error (p_error_f s))))\<rparr>;
          up = to_float (dmul (p_kp_f params) error);
          ui = to_float (dmul (p_ki_f params) (p_integrator_f s));
          ud = to_float (dmul (p_kd_f params) q);
          delta_e = sat_f (to_float (dsub (dadd (dadd (ddiv (trim_e_f params) (pwm_rad_e_f params))
                                                   up) ui) ud))
                      (to_float (max_e_f params)) (to_float (fneg (max_e_f params)));
          s = (if fge (fabs (p_ki_f params)) (Num 0.00001)
               then (let delta_e_unsat =
                           to_float (dsub (dadd (dadd (ddiv (trim_e_f params) (pwm_rad_e_f params))
                                                   up) ui) ud)
                     in s\<lparr>p_integrator_f :=
                            to_float (dadd (p_integrator_f s)
                                        (dmul (ddiv Ts (p_ki_f params))
                                              (fsub delta_e delta_e_unsat)))\<rparr>)
               else s);
          s = s\<lparr>p_error_f := error\<rparr>
      in (fneg delta_e, s))"

definition airspeed_with_throttle_hold_f ::
  "fval \<Rightarrow> fval \<Rightarrow> params_f \<Rightarrow> fval \<Rightarrow> controller_example_f
     \<Rightarrow> fval \<times> controller_example_f" where
  "airspeed_with_throttle_hold_f Va_c Va params Ts s =
     (let error = fsub Va_c Va;
          s = s\<lparr>at_integrator_f :=
                  to_float (dadd (at_integrator_f s)
                              (dmul (ddiv Ts (Num 2.0)) (fadd error (at_error_f s))))\<rparr>;
          s = s\<lparr>at_differentiator_f :=
                  to_float
                    (dadd (dmul (ddiv (dsub (dmul (Num 2.0) (tau_f params)) Ts)
                                      (dadd (dmul (Num 2.0) (tau_f params)) Ts))
                                (at_differentiator_f s))
                          (dmul (ddiv (Num 2.0) (dadd (dmul (Num 2.0) (tau_f params)) Ts))
                                (fsub error (at_error_f s))))\<rparr>;
          up = to_float (dmul (a_t_kp_f params) error);
          ui = to_float (dmul (a_t_ki_f params) (at_integrator_f s));
          ud = to_float (dmul (a_t_kd_f params) (at_differentiator_f s));
          delta_t = sat_f (to_float (dadd (dadd (dadd (trim_t_f params) up) ui) ud))
                      (to_float (max_t_f params)) (Num 0);
          s = (if fge (fabs (a_t_ki_f params)) (Num 0.00001)
               then (let delta_t_unsat = to_float (dadd (dadd (dadd (trim_t_f params) up) ui) ud)
                     in s\<lparr>at_integrator_f :=
                            to_float (dadd (at_integrator_f s)
                                        (dmul (ddiv Ts (a_t_ki_f params))
                                              (fsub delta_t delta_t_unsat)))\<rparr>)
               else s);
          s = s\<lparr>at_error_f := error\<rparr>
      in (delta_t, s))"

definition altitude_hold_control_f ::
  "fval \<Rightarrow> fval \<Rightarrow> params_f \<Rightarrow> fval \<Rightarrow> controller_example_f
     \<Rightarrow> fval \<times> controller_example_f" where
  "altitude_hold_control_f h_c h params Ts s =
     (let error = fsub h_c h;
          s = (if flt (dadd (fneg (alt_hz_f params)) (Num 0.01)) error
                  \<and> flt error (dsub (alt_hz_f params) (Num 0.01))
               then s\<lparr>a_integrator_f :=
                        to_float (dadd (a_integrator_f s)
                                    (dmul (ddiv Ts (Num 2.0)) (fadd error (a_error_f s))))\<rparr>
               else s\<lparr>a_integrator_f := Num 0.0\<rparr>);
          s = s\<lparr>a_differentiator_f :=
                  to_float
                    (dadd (dmul (ddiv (dsub (dmul (Num 2.0) (tau_f params)) Ts)
                                      (dadd (dmul (Num 2.0) (tau_f params)) Ts))
                                (a_differentiator_f s))
                          (dmul (ddiv (Num 2.0) (dadd (dmul (Num 2.0) (tau_f params)) Ts))
                                (fsub error (a_error_f s))))\<rparr>;
          up = to_float (dmul (a_kp_f params) error);
          ui = to_float (dmul (a_ki_f params) (a_integrator_f s));
          ud = to_float (dmul (a_kd_f params) (a_differentiator_f s));
          theta_c = sat_f (fadd (fadd up ui) ud)
                      (to_float (Num (10.0 * 3.14 / 180.0)))
                      (to_float (Num (- 10.0 * 3.14 / 180.0)));
          s = (if fge (fabs (a_ki_f params)) (Num 0.00001)
               then (let theta_c_unsat = fadd (fadd up ui) ud
                     in s\<lparr>a_integrator_f :=
                            to_float (dadd (a_integrator_f s)
                                        (dmul (ddiv Ts (a_ki_f params))
                                              (fsub theta_c theta_c_unsat)))\<rparr>)
               else s);
          s = s\<lparr>at_error_f := error\<rparr>
      in (theta_c, s))"

text \<open>A finite value between two real bounds.\<close>

fun in_range :: "real \<Rightarrow> real \<Rightarrow> fval \<Rightarrow> bool" where
  "in_range lo hi (Num x) = (lo \<le> x \<and> x \<le> hi)"
| "in_range lo hi v = False"

subsection \<open>Phase handlers\<close>

text \<open>The structs \<^verbatim>\<open>input_s\<close> and \<^verbatim>\<open>output_s\<close> are declared in the same header;
  the records have the fields the handlers read and write.\<close>

record input_s =
  Ts :: real
  h :: real
  h_c :: real
  va :: real
  Va_c :: real
  phi :: real
  p :: real
  theta :: real
  q :: real
  chi :: real
  chi_c :: real
  phi_ff :: real
  r :: real

record output_s =
  delta_a :: real
  delta_e :: real
  delta_r :: real
  delta_t :: real
  phi_c :: real
  theta_c :: real

text \<open>
  \<^verbatim>\<open>copysign\<close> of the C library: the magnitude of the first argument with the sign of the
  second (a real number has no negative zero, so zero counts as positive). \<^verbatim>\<open>abs\<close> in the
  handlers is taken as the floating-point absolute value.
\<close>

definition copysign :: "real \<Rightarrow> real \<Rightarrow> real" where
  "copysign x y = (if y < 0 then - \<bar>x\<bar> else \<bar>x\<bar>)"

definition take_off ::
  "params_s \<Rightarrow> input_s \<Rightarrow> output_s \<Rightarrow> controller_example \<Rightarrow> output_s \<times> controller_example" where
  "take_off params input output s =
     (let output = output\<lparr>delta_r := 0\<rparr>;
          output = output\<lparr>phi_c := 0\<rparr>;
          (da, s) = roll_hold (phi_c output) (phi input) (p input) params (Ts input) s;
          output = output\<lparr>delta_a := da\<rparr>;
          (dt, s) = airspeed_with_throttle_hold (Va_c input) (va input) params (Ts input) s;
          output = output\<lparr>delta_t := sat dt (max_takeoff_throttle params) 0\<rparr>;
          output = output\<lparr>theta_c := 3.0 * 3.14 / 180.0\<rparr>;
          (de, s) = pitch_hold (theta_c output) (theta input) (q input) params (Ts input) s;
          output = output\<lparr>delta_e := de\<rparr>
      in (output, s))"

definition climb ::
  "params_s \<Rightarrow> input_s \<Rightarrow> output_s \<Rightarrow> controller_example \<Rightarrow> output_s \<times> controller_example" where
  "climb params input output s =
     (let max_alt = alt_hz params / 2.0;
          adjusted_hc =
            (if \<bar>h_c input - h input\<bar> > max_alt
             then h input + copysign max_alt (h_c input - h input)
             else h_c input);
          (dt, s) = airspeed_with_throttle_hold (Va_c input) (va input) params (Ts input) s;
          output = output\<lparr>delta_t := dt\<rparr>;
          (tc, s) = altitude_hold_control adjusted_hc (h input) params (Ts input) s;
          output = output\<lparr>theta_c := tc\<rparr>;
          (de, s) = pitch_hold (theta_c output) (theta input) (q input) params (Ts input) s;
          output = output\<lparr>delta_e := de\<rparr>;
          output = output\<lparr>phi_c := 0\<rparr>;
          (da, s) = roll_hold (phi_c output) (phi input) (p input) params (Ts input) s;
          output = output\<lparr>delta_a := da\<rparr>;
          output = output\<lparr>delta_r := 0\<rparr>
      in (output, s))"

definition altitude_hold ::
  "params_s \<Rightarrow> input_s \<Rightarrow> output_s \<Rightarrow> controller_example \<Rightarrow> output_s \<times> controller_example" where
  "altitude_hold params input output s =
     (let max_alt = alt_hz params;
          adjusted_hc =
            (if \<bar>h_c input - h input\<bar> > max_alt
             then h input + copysign max_alt (h_c input - h input)
             else h_c input);
          (dt, s) = airspeed_with_throttle_hold (Va_c input) (va input) params (Ts input) s;
          output = output\<lparr>delta_t := dt\<rparr>;
          (tc, s) = altitude_hold_control adjusted_hc (h input) params (Ts input) s;
          output = output\<lparr>theta_c := tc\<rparr>;
          output = output\<lparr>delta_r := 0\<rparr>;
          (pc, s) = course_hold (chi_c input) (chi input) (phi_ff input) (r input) params
                      (Ts input) s;
          output = output\<lparr>phi_c := pc\<rparr>;
          (da, s) = roll_hold (phi_c output) (phi input) (p input) params (Ts input) s;
          output = output\<lparr>delta_a := da\<rparr>;
          (de, s) = pitch_hold (theta_c output) (theta input) (q input) params (Ts input) s;
          output = output\<lparr>delta_e := de\<rparr>
      in (output, s))"

subsection \<open>The parameter manager\<close>

text \<open>
  The member \<^verbatim>\<open>params_\<close> (\<open>stored\<close> below) is a \<^verbatim>\<open>std::map\<close> from parameter names to a
  \<^verbatim>\<open>std::variant<double, bool, int64_t, std::string>\<close>.
\<close>

datatype param_variant =
  Double_v real
| Bool_v bool
| Int64_v "64 word"
| String_v string

type_synonym param_store = "string \<rightharpoonup> param_variant"

text \<open>
  \<^verbatim>\<open>rclcpp::Parameter\<close> belongs to the ROS 2 client library: a name and a value tagged
  with its \<^verbatim>\<open>ParameterType\<close>. \<^verbatim>\<open>get_type\<close> reads the tag; \<^verbatim>\<open>as_double\<close>,
  \<^verbatim>\<open>as_bool\<close>, \<^verbatim>\<open>as_int\<close> and \<^verbatim>\<open>as_string\<close> read the value under the matching tag,
  which is a \<^theory_text>\<open>case\<close> on the constructor here.
\<close>

datatype parameter_value =
  PARAMETER_NOT_SET
| PARAMETER_BOOL bool
| PARAMETER_INTEGER "64 word"
| PARAMETER_DOUBLE real
| PARAMETER_STRING string
| PARAMETER_BYTE_ARRAY "8 word list"
| PARAMETER_BOOL_ARRAY "bool list"
| PARAMETER_INTEGER_ARRAY "64 word list"
| PARAMETER_DOUBLE_ARRAY "real list"
| PARAMETER_STRING_ARRAY "string list"

datatype parameter = Parameter (get_name: string) (get_parameter_value: parameter_value)

text \<open>The four \<^verbatim>\<open>declare_param\<close>/\<^verbatim>\<open>declare_int\<close> overloads store the value under
  the name (the declaration to the ROS 2 node is outside the model).\<close>

definition declare_param :: "string \<Rightarrow> param_variant \<Rightarrow> param_store \<Rightarrow> param_store" where
  "declare_param param_name val stored = stored(param_name \<mapsto> val)"

text \<open>
  The getters read through \<^verbatim>\<open>params_[param_name]\<close>. For a name that is not a key,
  \<^verbatim>\<open>operator[]\<close> of \<^verbatim>\<open>std::map\<close> first inserts a value-initialised variant, which
  holds the first alternative, the double 0. \<^verbatim>\<open>std::get\<close> on another alternative than
  the one held throws \<^verbatim>\<open>std::bad_variant_access\<close>, which the getter catches and
  replaces by \<^verbatim>\<open>std::runtime_error\<close>; the inserted entry stays.
\<close>

datatype param_error = runtime_error

definition subscript :: "string \<Rightarrow> param_store \<Rightarrow> param_variant \<times> param_store" where
  "subscript param_name stored =
     (case stored param_name of
        Some v \<Rightarrow> (v, stored)
      | None \<Rightarrow> (Double_v 0, stored(param_name \<mapsto> Double_v 0)))"

definition get_double :: "string \<Rightarrow> param_store \<Rightarrow> (param_error + real) \<times> param_store" where
  "get_double param_name stored =
     (case subscript param_name stored of
        (v, stored) \<Rightarrow> (case v of Double_v d \<Rightarrow> Inr d | _ \<Rightarrow> Inl runtime_error, stored))"

definition get_bool :: "string \<Rightarrow> param_store \<Rightarrow> (param_error + bool) \<times> param_store" where
  "get_bool param_name stored =
     (case subscript param_name stored of
        (v, stored) \<Rightarrow> (case v of Bool_v b \<Rightarrow> Inr b | _ \<Rightarrow> Inl runtime_error, stored))"

definition get_int :: "string \<Rightarrow> param_store \<Rightarrow> (param_error + 64 word) \<times> param_store" where
  "get_int param_name stored =
     (case subscript param_name stored of
        (v, stored) \<Rightarrow> (case v of Int64_v i \<Rightarrow> Inr i | _ \<Rightarrow> Inl runtime_error, stored))"

definition get_string :: "string \<Rightarrow> param_store \<Rightarrow> (param_error + string) \<times> param_store" where
  "get_string param_name stored =
     (case subscript param_name stored of
        (v, stored) \<Rightarrow> (case v of String_v str \<Rightarrow> Inr str | _ \<Rightarrow> Inl runtime_error, stored))"

text \<open>The loop over the incoming vector; the log messages are not modelled.\<close>

fun set_parameters_callback :: "parameter list \<Rightarrow> param_store \<Rightarrow> bool \<times> param_store" where
  "set_parameters_callback [] stored = (True, stored)"
| "set_parameters_callback (param # parameters) stored =
     (if stored (get_name param) = None then (False, stored)
      else set_parameters_callback parameters
             (case get_parameter_value param of
                PARAMETER_DOUBLE d \<Rightarrow> stored(get_name param \<mapsto> Double_v d)
              | PARAMETER_BOOL b \<Rightarrow> stored(get_name param \<mapsto> Bool_v b)
              | PARAMETER_INTEGER i \<Rightarrow> stored(get_name param \<mapsto> Int64_v i)
              | PARAMETER_STRING str \<Rightarrow> stored(get_name param \<mapsto> String_v str)
              | _ \<Rightarrow> stored))"

text \<open>
  What the claims about the callback speak of: the variant a parameter's value is stored
  as, if its type is one of the four the map can hold, and the last parameter of a vector
  that has a given name and such a type.
\<close>

fun stored_as :: "parameter_value \<Rightarrow> param_variant option" where
  "stored_as (PARAMETER_DOUBLE d) = Some (Double_v d)"
| "stored_as (PARAMETER_BOOL b) = Some (Bool_v b)"
| "stored_as (PARAMETER_INTEGER i) = Some (Int64_v i)"
| "stored_as (PARAMETER_STRING str) = Some (String_v str)"
| "stored_as _ = None"

fun last_stored :: "string \<Rightarrow> parameter list \<Rightarrow> param_variant option" where
  "last_stored n [] = None"
| "last_stored n (param # parameters) =
     (case last_stored n parameters of
        Some v \<Rightarrow> Some v
      | None \<Rightarrow> (if get_name param = n then stored_as (get_parameter_value param) else None))"

subsection \<open>The effort of a loop, recomputed from given values\<close>

text \<open>
  The sum each loop passes to \<open>sat\<close>, as a function of the error, the integrator and the
  derivative term: what the anti-windup claims call recomputing the effort without
  clamping.
\<close>

definition course_effort :: "params_s \<Rightarrow> real \<Rightarrow> real \<Rightarrow> real \<Rightarrow> real \<Rightarrow> real" where
  "course_effort params err integ rate ff =
     c_kp params * err + c_ki params * integ + c_kd params * rate + ff"

definition roll_effort :: "params_s \<Rightarrow> real \<Rightarrow> real \<Rightarrow> real \<Rightarrow> real" where
  "roll_effort params err integ rate =
     r_kp params * err + r_ki params * integ - r_kd params * rate"

definition pitch_effort :: "params_s \<Rightarrow> real \<Rightarrow> real \<Rightarrow> real \<Rightarrow> real" where
  "pitch_effort params err integ rate =
     trim_e params / pwm_rad_e params + p_kp params * err + p_ki params * integ
       - p_kd params * rate"

definition airspeed_effort :: "params_s \<Rightarrow> real \<Rightarrow> real \<Rightarrow> real \<Rightarrow> real" where
  "airspeed_effort params err integ deriv =
     trim_t params + a_t_kp params * err + a_t_ki params * integ + a_t_kd params * deriv"

definition altitude_effort :: "params_s \<Rightarrow> real \<Rightarrow> real \<Rightarrow> real \<Rightarrow> real" where
  "altitude_effort params err integ deriv =
     a_kp params * err + a_ki params * integ + a_kd params * deriv"

text \<open>The altitude loop's integrator after its first step: advanced strictly inside the
  band around zero error, zero otherwise.\<close>

definition altitude_integrated :: "params_s \<Rightarrow> real \<Rightarrow> real \<Rightarrow> controller_example \<Rightarrow> real" where
  "altitude_integrated params err dt s =
     (if \<bar>err\<bar> < alt_hz params - 0.01
      then a_integrator s + (dt / 2) * (err + a_error s)
      else 0)"

subsection \<open>Concrete parameters, inputs and states\<close>

definition zero_params :: params_s where
  "zero_params =
     \<lparr>alt_hz = 0, tau = 0, c_kp = 0, c_kd = 0, c_ki = 0, r_kp = 0, r_kd = 0, r_ki = 0,
      p_kp = 0, p_kd = 0, p_ki = 0, a_t_kp = 0, a_t_kd = 0, a_t_ki = 0,
      a_kp = 0, a_kd = 0, a_ki = 0, trim_e = 0, pwm_rad_e = 0, trim_t = 0,
      max_e = 0, max_a = 0, max_t = 0, max_takeoff_throttle = 0\<rparr>"

definition zero_state :: controller_example where
  "zero_state =
     \<lparr>c_error = 0, c_integrator = 0, r_error = 0, r_integrator = 0, p_error = 0,
      p_integrator = 0, at_error = 0, at_integrator = 0, at_differentiator = 0,
      a_error = 0, a_integrator = 0, a_differentiator = 0\<rparr>"

definition zero_input :: input_s where
  "zero_input =
     \<lparr>Ts = 0, h = 0, h_c = 0, va = 0, Va_c = 0, phi = 0, p = 0, theta = 0, q = 0,
      chi = 0, chi_c = 0, phi_ff = 0, r = 0\<rparr>"

definition zero_output :: output_s where
  "zero_output =
     \<lparr>delta_a = 0, delta_e = 0, delta_r = 0, delta_t = 0, phi_c = 0, theta_c = 0\<rparr>"

text \<open>Unit gains, unit limits and a hold zone of 10: every anti-windup step is active.\<close>

definition unit_params :: params_s where
  "unit_params =
     \<lparr>alt_hz = 10, tau = 1, c_kp = 1, c_kd = 1, c_ki = 1, r_kp = 1, r_kd = 1, r_ki = 1,
      p_kp = 1, p_kd = 1, p_ki = 1, a_t_kp = 1, a_t_kd = 1, a_t_ki = 1,
      a_kp = 1, a_kd = 1, a_ki = 1, trim_e = 0, pwm_rad_e = 1, trim_t = 0,
      max_e = 1, max_a = 1, max_t = 1, max_takeoff_throttle = 1\<rparr>"

text \<open>The same unit parameters and zero state as floating-point values.\<close>

definition unit_params_f :: params_f where
  "unit_params_f =
     \<lparr>alt_hz_f = Num 10, tau_f = Num 1, c_kp_f = Num 1, c_kd_f = Num 1, c_ki_f = Num 1,
      r_kp_f = Num 1, r_kd_f = Num 1, r_ki_f = Num 1, p_kp_f = Num 1, p_kd_f = Num 1,
      p_ki_f = Num 1, a_t_kp_f = Num 1, a_t_kd_f = Num 1, a_t_ki_f = Num 1,
      a_kp_f = Num 1, a_kd_f = Num 1, a_ki_f = Num 1, trim_e_f = Num 0, pwm_rad_e_f = Num 1,
      trim_t_f = Num 0, max_e_f = Num 1, max_a_f = Num 1, max_t_f = Num 1\<rparr>"

definition zero_state_f :: controller_example_f where
  "zero_state_f =
     \<lparr>c_error_f = Num 0, c_integrator_f = Num 0, r_error_f = Num 0, r_integrator_f = Num 0,
      p_error_f = Num 0, p_integrator_f = Num 0, at_error_f = Num 0, at_integrator_f = Num 0,
      at_differentiator_f = Num 0, a_error_f = Num 0, a_integrator_f = Num 0,
      a_differentiator_f = Num 0\<rparr>"

section \<open>Properties\<close>

subsection \<open>Saturation\<close>



subsection \<open>Output bounds of the loops\<close>


lemma run_ticks_length: "length (fst (run_ticks tick xs s)) = length xs"
proof (induction xs arbitrary: s)
  case Nil
  show ?case by simp
next
  case (Cons x xs)
  obtain y s' where step: "tick x s = (y, s')" by (cases "tick x s")
  obtain ys s'' where rest: "run_ticks tick xs s' = (ys, s'')" by (cases "run_ticks tick xs s'")
  have "length ys = length xs" using Cons.IH [of s'] rest by simp
  then show ?case using step rest by simp
qed

lemma run_ticks_all:
  assumes "\<And>x s. P (fst (tick x s))"
  shows "\<forall>y \<in> set (fst (run_ticks tick xs s)). P y"
proof (induction xs arbitrary: s)
  case Nil
  show ?case by simp
next
  case (Cons x xs)
  obtain y s' where step: "tick x s = (y, s')" by (cases "tick x s")
  obtain ys s'' where rest: "run_ticks tick xs s' = (ys, s'')" by (cases "run_ticks tick xs s'")
  have "P y" using assms [of x s] step by simp
  moreover have "\<forall>z \<in> set ys. P z" using Cons.IH [of s'] rest by simp
  ultimately show ?case using step rest by simp
qed

text \<open>The source writes degrees with 3.14 for \<open>pi\<close>, which is below \<open>pi\<close>: the
  bounds of the course and altitude loops are a little inside 15 and 10 degrees.\<close>

lemma cos_sum12:
  "(\<Sum>m<12. cos_coeff m * (x::real) ^ m)
     = 1 - x^2/2 + x^4/24 - x^6/720 + x^8/40320 - x^10/3628800"
  by (simp add: eval_nat_numeral cos_coeff_Suc sin_coeff_Suc)

lemma fact12: "fact 12 = (479001600::real)"
  by (simp add: eval_nat_numeral)

lemma cos_157_pos: "0 < cos (157/100::real)"
proof -
  obtain t where t: "cos (157/100::real) = (\<Sum>m<12. cos_coeff m * (157/100) ^ m)
      + (cos (t + 1/2 * real (12::nat) * pi) / fact 12) * (157/100) ^ 12"
    using Maclaurin_cos_expansion2 [of "157/100" 12] by auto
  have "- 1 \<le> cos (t + 1/2 * real (12::nat) * pi)" by (rule cos_ge_minus_one)
  moreover have "0 \<le> (157/100::real) ^ 12 / 479001600" by simp
  ultimately have "(- 1) * ((157/100::real) ^ 12 / 479001600)
      \<le> cos (t + 1/2 * real (12::nat) * pi) * ((157/100) ^ 12 / 479001600)"
    by (rule mult_right_mono)
  then have "- 1 / 479001600 * (157/100) ^ 12
      \<le> (cos (t + 1/2 * real (12::nat) * pi) / fact 12) * (157/100::real) ^ 12"
    unfolding fact12 by (simp only: times_divide_eq_right times_divide_eq_left mult.commute)
  moreover have "0 < 1 - (157/100::real)^2/2 + (157/100)^4/24 - (157/100)^6/720
      + (157/100)^8/40320 - (157/100)^10/3628800 + - 1 / 479001600 * (157/100) ^ 12"
    by (simp add: power_divide)
  ultimately show ?thesis unfolding t cos_sum12 by linarith
qed

lemma pi_gt_314: "3.14 < pi"
proof (rule ccontr)
  assume "\<not> 3.14 < pi"
  then have le: "pi / 2 \<le> 157 / 100" by simp
  have "157 / 100 \<le> pi" using pi_ge_two by linarith
  then have "cos (157 / 100) \<le> cos (pi / 2)"
    using cos_monotone_0_pi_le [of "pi / 2" "157 / 100"] le pi_ge_zero by simp
  then show False using cos_157_pos by simp
qed

lemma code_degrees_le:
  assumes "0 \<le> d"
  shows "d * 3.14 / 180.0 \<le> degrees d"
proof -
  have "d * 3.14 \<le> d * pi"
    using assms pi_gt_314 by (intro mult_left_mono) simp_all
  then have "d * 3.14 / 180 \<le> d * pi / 180"
    by (intro divide_right_mono) simp_all
  then show ?thesis by (simp add: degrees_def)
qed

text \<open>Each loop on floating-point values returns \<open>sat_f\<close> of its effort (the pitch loop
  the negation of it), and \<open>sat_f\<close> with finite limits returns a value within them or NaN.\<close>

lemma to_float_Num: "\<bar>x\<bar> \<le> FLT_MAX \<Longrightarrow> to_float (Num x) = Num x"
  by (auto simp add: to_float_def)

lemma sat_f_range:
  assumes "lo \<le> hi"
  shows "sat_f v (Num hi) (Num lo) = NaN \<or> in_range lo hi (sat_f v (Num hi) (Num lo))"
  using assms by (cases v) (auto simp add: sat_f_def flt_def)

lemma fneg_range: "in_range (- m) m v \<Longrightarrow> in_range (- m) m (fneg v)"
  by (cases v) auto

lemma in_range_mono: "in_range lo hi v \<Longrightarrow> lo' \<le> lo \<Longrightarrow> hi \<le> hi' \<Longrightarrow> in_range lo' hi' v"
  by (cases v) auto

lemma course_const: "to_float (Num (15.0 * 3.14 / 180.0)) = Num (15.0 * 3.14 / 180.0)"
  "to_float (Num (- 15.0 * 3.14 / 180.0)) = Num (- (15.0 * 3.14 / 180.0))"
  "to_float (Num (10.0 * 3.14 / 180.0)) = Num (10.0 * 3.14 / 180.0)"
  "to_float (Num (- 10.0 * 3.14 / 180.0)) = Num (- (10.0 * 3.14 / 180.0))"
  by (simp_all add: to_float_def FLT_MAX_def)

lemma course_hold_f_sat:
  "\<exists>e. fst (course_hold_f a b c d params t s)
        = sat_f e (Num (15.0 * 3.14 / 180.0)) (Num (- (15.0 * 3.14 / 180.0)))"
  unfolding course_hold_f_def Let_def course_const by (simp only: fst_conv) blast

lemma altitude_hold_control_f_sat:
  "\<exists>e. fst (altitude_hold_control_f a b params t s)
        = sat_f e (Num (10.0 * 3.14 / 180.0)) (Num (- (10.0 * 3.14 / 180.0)))"
  unfolding altitude_hold_control_f_def Let_def course_const by (simp only: fst_conv) blast

lemma roll_hold_f_sat:
  "\<exists>e. fst (roll_hold_f a b c params t s)
        = sat_f e (to_float (max_a_f params)) (to_float (fneg (max_a_f params)))"
  unfolding roll_hold_f_def Let_def by (simp only: fst_conv) blast

lemma pitch_hold_f_sat:
  "\<exists>e. fst (pitch_hold_f a b c params t s)
        = fneg (sat_f e (to_float (max_e_f params)) (to_float (fneg (max_e_f params))))"
  unfolding pitch_hold_f_def Let_def by (simp only: fst_conv) blast

lemma airspeed_with_throttle_hold_f_sat:
  "\<exists>e. fst (airspeed_with_throttle_hold_f a b params t s)
        = sat_f e (to_float (max_t_f params)) (Num 0)"
  unfolding airspeed_with_throttle_hold_f_def Let_def by (simp only: fst_conv) blast

lemma course_hold_f_range:
  "fst (course_hold_f a b c d params t s) = NaN
   \<or> in_range (- degrees 15) (degrees 15) (fst (course_hold_f a b c d params t s))"
proof -
  obtain e where e: "fst (course_hold_f a b c d params t s)
        = sat_f e (Num (15.0 * 3.14 / 180.0)) (Num (- (15.0 * 3.14 / 180.0)))"
    using course_hold_f_sat by blast
  have "sat_f e (Num (15.0 * 3.14 / 180.0)) (Num (- (15.0 * 3.14 / 180.0))) = NaN
      \<or> in_range (- (15.0 * 3.14 / 180.0)) (15.0 * 3.14 / 180.0)
           (sat_f e (Num (15.0 * 3.14 / 180.0)) (Num (- (15.0 * 3.14 / 180.0))))"
    by (rule sat_f_range) simp
  then show ?thesis
    unfolding e using code_degrees_le [of 15] by (auto intro: in_range_mono)
qed

lemma altitude_hold_control_f_range:
  "fst (altitude_hold_control_f a b params t s) = NaN
   \<or> in_range (- degrees 10) (degrees 10) (fst (altitude_hold_control_f a b params t s))"
proof -
  obtain e where e: "fst (altitude_hold_control_f a b params t s)
        = sat_f e (Num (10.0 * 3.14 / 180.0)) (Num (- (10.0 * 3.14 / 180.0)))"
    using altitude_hold_control_f_sat by blast
  have "sat_f e (Num (10.0 * 3.14 / 180.0)) (Num (- (10.0 * 3.14 / 180.0))) = NaN
      \<or> in_range (- (10.0 * 3.14 / 180.0)) (10.0 * 3.14 / 180.0)
           (sat_f e (Num (10.0 * 3.14 / 180.0)) (Num (- (10.0 * 3.14 / 180.0))))"
    by (rule sat_f_range) simp
  then show ?thesis
    unfolding e using code_degrees_le [of 10] by (auto intro: in_range_mono)
qed

lemma roll_hold_f_range:
  assumes "max_a_f params = Num ma" and "0 \<le> ma" and "ma \<le> FLT_MAX"
  shows "fst (roll_hold_f a b c params t s) = NaN
       \<or> in_range (- ma) ma (fst (roll_hold_f a b c params t s))"
proof -
  obtain e where e: "fst (roll_hold_f a b c params t s)
        = sat_f e (to_float (max_a_f params)) (to_float (fneg (max_a_f params)))"
    using roll_hold_f_sat by blast
  have lim: "to_float (max_a_f params) = Num ma" "to_float (fneg (max_a_f params)) = Num (- ma)"
    using assms by (simp_all add: to_float_Num)
  show ?thesis
    unfolding e lim using assms(2) by (intro sat_f_range) simp
qed

lemma pitch_hold_f_range:
  assumes "max_e_f params = Num me" and "0 \<le> me" and "me \<le> FLT_MAX"
  shows "fst (pitch_hold_f a b c params t s) = NaN
       \<or> in_range (- me) me (fst (pitch_hold_f a b c params t s))"
proof -
  obtain e where e: "fst (pitch_hold_f a b c params t s)
        = fneg (sat_f e (to_float (max_e_f params)) (to_float (fneg (max_e_f params))))"
    using pitch_hold_f_sat by blast
  have lim: "to_float (max_e_f params) = Num me" "to_float (fneg (max_e_f params)) = Num (- me)"
    using assms by (simp_all add: to_float_Num)
  have "sat_f e (Num me) (Num (- me)) = NaN \<or> in_range (- me) me (sat_f e (Num me) (Num (- me)))"
    using assms(2) by (intro sat_f_range) simp
  then show ?thesis
    unfolding e lim by (auto intro: fneg_range)
qed

lemma airspeed_with_throttle_hold_f_range:
  assumes "max_t_f params = Num mt" and "0 \<le> mt" and "mt \<le> FLT_MAX"
  shows "fst (airspeed_with_throttle_hold_f a b params t s) = NaN
       \<or> in_range 0 mt (fst (airspeed_with_throttle_hold_f a b params t s))"
proof -
  obtain e where e: "fst (airspeed_with_throttle_hold_f a b params t s)
        = sat_f e (to_float (max_t_f params)) (Num 0)"
    using airspeed_with_throttle_hold_f_sat by blast
  have lim: "to_float (max_t_f params) = Num mt"
    using assms by (simp add: to_float_Num)
  show ?thesis
    unfolding e lim using assms(2) by (intro sat_f_range)
qed

text \<open>Two runs of the roll loop with unit gains and \<open>max_a = 1\<close> from the zero state,
  and one tick of the pitch loop with \<open>trim_e = pwm_rad_e = 0\<close>, evaluated tick by tick.\<close>

lemma fops:
  "fadd a b = overflow FLT_MAX (xadd a b)"
  "fsub a b = overflow FLT_MAX (xadd a (fneg b))"
  "dadd a b = overflow DBL_MAX (xadd a b)"
  "dsub a b = overflow DBL_MAX (xadd a (fneg b))"
  "dmul a b = overflow DBL_MAX (xmul a b)"
  "ddiv a b = overflow DBL_MAX (xdiv a b)"
  "to_float a = overflow FLT_MAX a"
  by (simp_all add: fadd_def fsub_def dadd_def dsub_def dmul_def ddiv_def xsub_def
      to_float_def to_double_def)

lemma nan_tick1:
  "roll_hold_f (Num 300000000000000000000000000000000000000)
       (Num (- 300000000000000000000000000000000000000)) (Num 0) unit_params_f (Num 1) zero_state_f
     = (Num 1, zero_state_f\<lparr>r_integrator_f := NaN, r_error_f := PInf\<rparr>)"
  by (simp add: roll_hold_f_def unit_params_f_def zero_state_f_def Let_def fops FLT_MAX_def DBL_MAX_def fge_def flt_def sat_f_def)

lemma nan_tick2:
  "fst (roll_hold_f (Num 0) (Num 0) (Num 0) unit_params_f (Num 1)
         (zero_state_f\<lparr>r_integrator_f := NaN, r_error_f := PInf\<rparr>)) = NaN"
  by (simp add: roll_hold_f_def unit_params_f_def zero_state_f_def Let_def fops FLT_MAX_def DBL_MAX_def fge_def flt_def sat_f_def)

lemma run_ticks_two:
  "fst (run_ticks tick [x, y] s) = [fst (tick x s), fst (tick y (snd (tick x s)))]"
  by (simp add: case_prod_beta)

lemma nan_run:
  "fst (run_ticks (\<lambda>(pc, ph, pp, dt). roll_hold_f pc ph pp unit_params_f dt)
          [(Num 300000000000000000000000000000000000000,
            Num (- 300000000000000000000000000000000000000), Num 0, Num 1),
           (Num 0, Num 0, Num 0, Num 1)] zero_state_f) = [Num 1, NaN]"
  by (simp only: run_ticks_two) (simp add: nan_tick1 nan_tick2)

lemma pitch_nan:
  "fst (pitch_hold_f (Num 0) (Num 0) (Num 0) (unit_params_f\<lparr>pwm_rad_e_f := Num 0\<rparr>) (Num 1) zero_state_f) = NaN"
  by (simp add: pitch_hold_f_def unit_params_f_def zero_state_f_def Let_def fops FLT_MAX_def DBL_MAX_def fge_def flt_def sat_f_def)

lemma ok_tick1:
  "roll_hold_f (Num 4) (Num 0) (Num 0) unit_params_f (Num 1) zero_state_f
     = (Num 1, zero_state_f\<lparr>r_integrator_f := Num (- 3), r_error_f := Num 4\<rparr>)"
  by (simp add: roll_hold_f_def unit_params_f_def zero_state_f_def Let_def fops FLT_MAX_def DBL_MAX_def fge_def flt_def sat_f_def)

lemma ok_tick2:
  "fst (roll_hold_f (Num (- 4)) (Num 0) (Num 0) unit_params_f (Num 1)
         (zero_state_f\<lparr>r_integrator_f := Num (- 3), r_error_f := Num 4\<rparr>)) = Num (- 1)"
  by (simp add: roll_hold_f_def unit_params_f_def zero_state_f_def Let_def fops FLT_MAX_def DBL_MAX_def fge_def flt_def sat_f_def)

lemma ok_run:
  "fst (run_ticks (\<lambda>(pc, ph, pp, dt). roll_hold_f pc ph pp unit_params_f dt)
          [(Num 4, Num 0, Num 0, Num 1), (Num (- 4), Num 0, Num 0, Num 1)] zero_state_f)
     = [Num 1, Num (- 1)]"
  by (simp only: run_ticks_two) (simp add: ok_tick1 ok_tick2)

text \<open>
  Claim C3, as stated, fails: finite inputs and non-negative limits do not keep the output
  within the bounds. Roll loop, unit gains, \<open>max_a = 1\<close>, zero state: on the tick with
  commanded roll \<^verbatim>\<open>3e38\<close>, measured roll \<^verbatim>\<open>-3e38\<close> and sample period 1 the
  error overflows to infinity, the output is the clamped 1, and the anti-windup step stores
  infinity minus infinity, NaN, in the integrator; on the next tick, with all inputs zero,
  the effort is NaN, both comparisons of \<open>sat\<close> are false and the loop returns NaN. The
  pitch loop returns NaN on its first tick when \<open>trim_e\<close> and \<open>pwm_rad_e\<close> are both 0.
\<close>

theorem pid_outputs_nan_counterexample:
  "max_a_f unit_params_f = Num 1
   \<and> fst (run_ticks (\<lambda>(pc, ph, pp, dt). roll_hold_f pc ph pp unit_params_f dt)
          [(Num 300000000000000000000000000000000000000,
            Num (- 300000000000000000000000000000000000000), Num 0, Num 1),
           (Num 0, Num 0, Num 0, Num 1)] zero_state_f) = [Num 1, NaN]
   \<and> \<not> in_range (- 1) 1 NaN
   \<and> max_e_f (unit_params_f\<lparr>pwm_rad_e_f := Num 0\<rparr>) = Num 1
   \<and> fst (pitch_hold_f (Num 0) (Num 0) (Num 0) (unit_params_f\<lparr>pwm_rad_e_f := Num 0\<rparr>)
          (Num 1) zero_state_f) = NaN"
  by (intro conjI nan_run pitch_nan) (simp_all add: unit_params_f_def)

text \<open>
  Claim C3, amended. For every list of per-tick inputs and every starting state, with limits
  \<open>max_a\<close>, \<open>max_e\<close> and \<open>max_t\<close> that are non-negative finite floats, every output of a
  run of a loop is either NaN or within the loop's bounds: the course loop within 15 degrees
  either side of zero, the roll loop within \<open>max_a\<close>, the pitch loop (its returned, negated
  value) within \<open>max_e\<close>, the airspeed loop between 0 and \<open>max_t\<close>, the altitude loop
  within 10 degrees; and a run returns one output per tick.
\<close>

theorem pid_outputs_bounded_or_nan:
  assumes "max_a_f params = Num ma" and "0 \<le> ma" and "ma \<le> FLT_MAX"
    and "max_e_f params = Num me" and "0 \<le> me" and "me \<le> FLT_MAX"
    and "max_t_f params = Num mt" and "0 \<le> mt" and "mt \<le> FLT_MAX"
  shows "(\<forall>y \<in> set (fst (run_ticks (\<lambda>(cc, ch, ff, rr, dt). course_hold_f cc ch ff rr params dt) cs s)).
            y = NaN \<or> in_range (- degrees 15) (degrees 15) y)
       \<and> (\<forall>y \<in> set (fst (run_ticks (\<lambda>(pc, ph, pp, dt). roll_hold_f pc ph pp params dt) rs s)).
            y = NaN \<or> in_range (- ma) ma y)
       \<and> (\<forall>y \<in> set (fst (run_ticks (\<lambda>(tc, th, qq, dt). pitch_hold_f tc th qq params dt) ps s)).
            y = NaN \<or> in_range (- me) me y)
       \<and> (\<forall>y \<in> set (fst (run_ticks (\<lambda>(vc, vv, dt). airspeed_with_throttle_hold_f vc vv params dt) vs s)).
            y = NaN \<or> in_range 0 mt y)
       \<and> (\<forall>y \<in> set (fst (run_ticks (\<lambda>(hc, hh, dt). altitude_hold_control_f hc hh params dt) hs s)).
            y = NaN \<or> in_range (- degrees 10) (degrees 10) y)
       \<and> length (fst (run_ticks (\<lambda>(cc, ch, ff, rr, dt). course_hold_f cc ch ff rr params dt) cs s)) = length cs
       \<and> length (fst (run_ticks (\<lambda>(pc, ph, pp, dt). roll_hold_f pc ph pp params dt) rs s)) = length rs
       \<and> length (fst (run_ticks (\<lambda>(tc, th, qq, dt). pitch_hold_f tc th qq params dt) ps s)) = length ps
       \<and> length (fst (run_ticks (\<lambda>(vc, vv, dt). airspeed_with_throttle_hold_f vc vv params dt) vs s)) = length vs
       \<and> length (fst (run_ticks (\<lambda>(hc, hh, dt). altitude_hold_control_f hc hh params dt) hs s)) = length hs"
proof -
  have c: "\<forall>y \<in> set (fst (run_ticks (\<lambda>(cc, ch, ff, rr, dt). course_hold_f cc ch ff rr params dt) cs s)).
            y = NaN \<or> in_range (- degrees 15) (degrees 15) y"
    by (rule run_ticks_all) (simp only: split_beta course_hold_f_range)
  have r: "\<forall>y \<in> set (fst (run_ticks (\<lambda>(pc, ph, pp, dt). roll_hold_f pc ph pp params dt) rs s)).
            y = NaN \<or> in_range (- ma) ma y"
    by (rule run_ticks_all) (simp only: split_beta roll_hold_f_range [OF assms(1-3)])
  have p: "\<forall>y \<in> set (fst (run_ticks (\<lambda>(tc, th, qq, dt). pitch_hold_f tc th qq params dt) ps s)).
            y = NaN \<or> in_range (- me) me y"
    by (rule run_ticks_all) (simp only: split_beta pitch_hold_f_range [OF assms(4-6)])
  have v: "\<forall>y \<in> set (fst (run_ticks (\<lambda>(vc, vv, dt). airspeed_with_throttle_hold_f vc vv params dt) vs s)).
            y = NaN \<or> in_range 0 mt y"
    by (rule run_ticks_all) (simp only: split_beta airspeed_with_throttle_hold_f_range [OF assms(7-9)])
  have a: "\<forall>y \<in> set (fst (run_ticks (\<lambda>(hc, hh, dt). altitude_hold_control_f hc hh params dt) hs s)).
            y = NaN \<or> in_range (- degrees 10) (degrees 10) y"
    by (rule run_ticks_all) (simp only: split_beta altitude_hold_control_f_range)
  show ?thesis
    by (intro conjI c r p v a run_ticks_length)
qed

theorem pid_outputs_bounded_or_nan_witness:
  "max_a_f unit_params_f = Num 1 \<and> (0::real) \<le> 1 \<and> 1 \<le> FLT_MAX
   \<and> max_e_f unit_params_f = Num 1 \<and> max_t_f unit_params_f = Num 1
   \<and> fst (run_ticks (\<lambda>(pc, ph, pp, dt). roll_hold_f pc ph pp unit_params_f dt)
          [(Num 4, Num 0, Num 0, Num 1), (Num (- 4), Num 0, Num 0, Num 1)] zero_state_f)
       = [Num 1, Num (- 1)]
   \<and> list_all (\<lambda>y. y = NaN \<or> in_range (- 1) 1 y)
        (fst (run_ticks (\<lambda>(pc, ph, pp, dt). roll_hold_f pc ph pp unit_params_f dt)
          [(Num 4, Num 0, Num 0, Num 1), (Num (- 4), Num 0, Num 0, Num 1)] zero_state_f))
   \<and> list_all (\<lambda>y. y = NaN \<or> in_range (- 1) 1 y)
        (fst (run_ticks (\<lambda>(pc, ph, pp, dt). roll_hold_f pc ph pp unit_params_f dt)
          [(Num 300000000000000000000000000000000000000,
            Num (- 300000000000000000000000000000000000000), Num 0, Num 1),
           (Num 0, Num 0, Num 0, Num 1)] zero_state_f))"
proof -
  have lim: "max_a_f unit_params_f = Num 1" "max_e_f unit_params_f = Num 1"
    "max_t_f unit_params_f = Num 1"
    by (simp_all add: unit_params_f_def)
  have num: "(0::real) \<le> 1" "1 \<le> FLT_MAX"
    by (simp_all add: FLT_MAX_def)
  show ?thesis
    using lim num ok_run
      pid_outputs_bounded_or_nan [OF lim(1) num lim(2) num lim(3) num, of "[]" zero_state_f
        "[(Num 4, Num 0, Num 0, Num 1), (Num (- 4), Num 0, Num 0, Num 1)]" "[]" "[]" "[]"]
      pid_outputs_bounded_or_nan [OF lim(1) num lim(2) num lim(3) num, of "[]" zero_state_f
        "[(Num 300000000000000000000000000000000000000,
            Num (- 300000000000000000000000000000000000000), Num 0, Num 1),
           (Num 0, Num 0, Num 0, Num 1)]" "[]" "[]" "[]"]
    unfolding list_all_iff by blast
qed

subsection \<open>Where the altitude loop stores its error\<close>

text \<open>
  Claim C8. Every call of \<open>altitude_hold_control\<close> stores its error, the commanded minus
  the actual altitude, in the airspeed loop's field \<open>at_error\<close>, and leaves the altitude
  loop's own field \<open>a_error\<close> as it was.
\<close>

theorem altitude_error_stored_in_airspeed_field:
  "at_error (snd (altitude_hold_control hc0 h0 params t s)) = hc0 - h0
   \<and> a_error (snd (altitude_hold_control hc0 h0 params t s)) = a_error s"
  by (simp add: altitude_hold_control_def Let_def)

subsection \<open>Phase-exit hooks\<close>

text \<open>
  Claim C7. The altitude-hold exit hook sets \<open>c_integrator\<close> to zero and leaves each of
  the other eleven fields, the course loop's previous error among them, unchanged. The
  climb exit hook sets the error, integrator and filtered derivative of the airspeed and
  altitude loops to zero and leaves the six fields of the course, roll and pitch loops
  unchanged.
\<close>

theorem exit_hooks_frame:
  "c_integrator (altitude_hold_exit s) = 0
   \<and> c_error (altitude_hold_exit s) = c_error s
   \<and> r_error (altitude_hold_exit s) = r_error s
   \<and> r_integrator (altitude_hold_exit s) = r_integrator s
   \<and> p_error (altitude_hold_exit s) = p_error s
   \<and> p_integrator (altitude_hold_exit s) = p_integrator s
   \<and> at_error (altitude_hold_exit s) = at_error s
   \<and> at_integrator (altitude_hold_exit s) = at_integrator s
   \<and> at_differentiator (altitude_hold_exit s) = at_differentiator s
   \<and> a_error (altitude_hold_exit s) = a_error s
   \<and> a_integrator (altitude_hold_exit s) = a_integrator s
   \<and> a_differentiator (altitude_hold_exit s) = a_differentiator s
   \<and> at_error (climb_exit s) = 0
   \<and> at_integrator (climb_exit s) = 0
   \<and> at_differentiator (climb_exit s) = 0
   \<and> a_error (climb_exit s) = 0
   \<and> a_integrator (climb_exit s) = 0
   \<and> a_differentiator (climb_exit s) = 0
   \<and> c_error (climb_exit s) = c_error s
   \<and> c_integrator (climb_exit s) = c_integrator s
   \<and> r_error (climb_exit s) = r_error s
   \<and> r_integrator (climb_exit s) = r_integrator s
   \<and> p_error (climb_exit s) = p_error s
   \<and> p_integrator (climb_exit s) = p_integrator s"
  by (simp add: altitude_hold_exit_def climb_exit_def)

subsection \<open>Anti-windup\<close>

text \<open>
  For each loop: its output is \<open>sat\<close> of the effort computed with the integrator as it
  is after the integration step (the pitch loop returns that value negated), and the
  integrator it stores.
\<close>

lemma windup_algebra:
  fixes ki :: real
  assumes "ki \<noteq> 0"
  shows "ki * (i1 + (dt / ki) * d) = ki * i1 + dt * d"
  using assms by (simp add: algebra_simps)

lemma course_hold_fst:
  "fst (course_hold cc ch ff rr params dt s) = sat (course_effort params (cc - ch) (c_integrator s + (dt / 2) * ((cc - ch) + c_error s)) rr ff) (15.0 * 3.14 / 180.0) (- 15.0 * 3.14 / 180.0)"
  by (simp add: course_hold_def Let_def course_effort_def)

lemma course_hold_integrator:
  "c_integrator (snd (course_hold cc ch ff rr params dt s))
     = (if \<bar>c_ki params\<bar> \<ge> 0.00001
        then c_integrator s + (dt / 2) * ((cc - ch) + c_error s)
             + (dt / c_ki params) * (fst (course_hold cc ch ff rr params dt s) - course_effort params (cc - ch) (c_integrator s + (dt / 2) * ((cc - ch) + c_error s)) rr ff)
        else c_integrator s + (dt / 2) * ((cc - ch) + c_error s))"
  by (simp add: course_hold_def Let_def course_effort_def)

lemma course_hold_windup:
  assumes "\<bar>c_ki params\<bar> \<ge> 0.00001"
  shows "course_effort params (cc - ch) (c_integrator (snd (course_hold cc ch ff rr params dt s))) rr ff
       = course_effort params (cc - ch) (c_integrator s + (dt / 2) * ((cc - ch) + c_error s)) rr ff
         + dt * (fst (course_hold cc ch ff rr params dt s) - course_effort params (cc - ch) (c_integrator s + (dt / 2) * ((cc - ch) + c_error s)) rr ff)"
proof -
  define i1 where "i1 = c_integrator s + (dt / 2) * ((cc - ch) + c_error s)"
  define out where "out = fst (course_hold cc ch ff rr params dt s)"
  define u where "u = course_effort params (cc - ch) (i1) rr ff"
  have nz: "c_ki params \<noteq> 0" using assms by auto
  have "c_integrator (snd (course_hold cc ch ff rr params dt s)) = i1 + (dt / c_ki params) * (out - u)"
    unfolding course_hold_integrator i1_def out_def u_def using assms by simp
  then have "course_effort params (cc - ch) (c_integrator (snd (course_hold cc ch ff rr params dt s))) rr ff
      = u + (c_ki params * (i1 + (dt / c_ki params) * (out - u)) - c_ki params * i1)"
    by (simp add: course_effort_def u_def)
  also have "\<dots> = u + dt * (out - u)"
    by (simp only: windup_algebra [OF nz])
  finally show ?thesis unfolding u_def i1_def out_def .
qed

lemma roll_hold_fst:
  "fst (roll_hold pc ph pp params dt s) = sat (roll_effort params (pc - ph) (r_integrator s + (dt / 2) * ((pc - ph) + r_error s)) pp) (max_a params) (- max_a params)"
  by (simp add: roll_hold_def Let_def roll_effort_def)

lemma roll_hold_integrator:
  "r_integrator (snd (roll_hold pc ph pp params dt s))
     = (if \<bar>r_ki params\<bar> \<ge> 0.00001
        then r_integrator s + (dt / 2) * ((pc - ph) + r_error s)
             + (dt / r_ki params) * (fst (roll_hold pc ph pp params dt s) - roll_effort params (pc - ph) (r_integrator s + (dt / 2) * ((pc - ph) + r_error s)) pp)
        else r_integrator s + (dt / 2) * ((pc - ph) + r_error s))"
  by (simp add: roll_hold_def Let_def roll_effort_def)

lemma roll_hold_windup:
  assumes "\<bar>r_ki params\<bar> \<ge> 0.00001"
  shows "roll_effort params (pc - ph) (r_integrator (snd (roll_hold pc ph pp params dt s))) pp
       = roll_effort params (pc - ph) (r_integrator s + (dt / 2) * ((pc - ph) + r_error s)) pp
         + dt * (fst (roll_hold pc ph pp params dt s) - roll_effort params (pc - ph) (r_integrator s + (dt / 2) * ((pc - ph) + r_error s)) pp)"
proof -
  define i1 where "i1 = r_integrator s + (dt / 2) * ((pc - ph) + r_error s)"
  define out where "out = fst (roll_hold pc ph pp params dt s)"
  define u where "u = roll_effort params (pc - ph) (i1) pp"
  have nz: "r_ki params \<noteq> 0" using assms by auto
  have "r_integrator (snd (roll_hold pc ph pp params dt s)) = i1 + (dt / r_ki params) * (out - u)"
    unfolding roll_hold_integrator i1_def out_def u_def using assms by simp
  then have "roll_effort params (pc - ph) (r_integrator (snd (roll_hold pc ph pp params dt s))) pp
      = u + (r_ki params * (i1 + (dt / r_ki params) * (out - u)) - r_ki params * i1)"
    by (simp add: roll_effort_def u_def)
  also have "\<dots> = u + dt * (out - u)"
    by (simp only: windup_algebra [OF nz])
  finally show ?thesis unfolding u_def i1_def out_def .
qed

lemma pitch_hold_fst:
  "fst (pitch_hold tc th qq params dt s) = - sat (pitch_effort params (tc - th) (p_integrator s + (dt / 2) * ((tc - th) + p_error s)) qq) (max_e params) (- max_e params)"
  by (simp add: pitch_hold_def Let_def pitch_effort_def)

lemma pitch_hold_integrator:
  "p_integrator (snd (pitch_hold tc th qq params dt s))
     = (if \<bar>p_ki params\<bar> \<ge> 0.00001
        then p_integrator s + (dt / 2) * ((tc - th) + p_error s)
             + (dt / p_ki params) * (- fst (pitch_hold tc th qq params dt s) - pitch_effort params (tc - th) (p_integrator s + (dt / 2) * ((tc - th) + p_error s)) qq)
        else p_integrator s + (dt / 2) * ((tc - th) + p_error s))"
  by (simp add: pitch_hold_def Let_def pitch_effort_def)

lemma pitch_hold_windup:
  assumes "\<bar>p_ki params\<bar> \<ge> 0.00001"
  shows "pitch_effort params (tc - th) (p_integrator (snd (pitch_hold tc th qq params dt s))) qq
       = pitch_effort params (tc - th) (p_integrator s + (dt / 2) * ((tc - th) + p_error s)) qq
         + dt * (- fst (pitch_hold tc th qq params dt s) - pitch_effort params (tc - th) (p_integrator s + (dt / 2) * ((tc - th) + p_error s)) qq)"
proof -
  define i1 where "i1 = p_integrator s + (dt / 2) * ((tc - th) + p_error s)"
  define out where "out = - fst (pitch_hold tc th qq params dt s)"
  define u where "u = pitch_effort params (tc - th) (i1) qq"
  have nz: "p_ki params \<noteq> 0" using assms by auto
  have "p_integrator (snd (pitch_hold tc th qq params dt s)) = i1 + (dt / p_ki params) * (out - u)"
    unfolding pitch_hold_integrator i1_def out_def u_def using assms by simp
  then have "pitch_effort params (tc - th) (p_integrator (snd (pitch_hold tc th qq params dt s))) qq
      = u + (p_ki params * (i1 + (dt / p_ki params) * (out - u)) - p_ki params * i1)"
    by (simp add: pitch_effort_def u_def)
  also have "\<dots> = u + dt * (out - u)"
    by (simp only: windup_algebra [OF nz])
  finally show ?thesis unfolding u_def i1_def out_def .
qed

lemma airspeed_with_throttle_hold_differentiator:
  "at_differentiator (snd (airspeed_with_throttle_hold vc vv params dt s))
     = (2.0 * tau params - dt) / (2.0 * tau params + dt) * at_differentiator s
       + (2.0 / (2.0 * tau params + dt)) * ((vc - vv) - at_error s)"
  by (simp add: airspeed_with_throttle_hold_def Let_def)

lemma airspeed_with_throttle_hold_fst:
  "fst (airspeed_with_throttle_hold vc vv params dt s)
     = sat (airspeed_effort params (vc - vv) (at_integrator s + (dt / 2) * ((vc - vv) + at_error s))
              (at_differentiator (snd (airspeed_with_throttle_hold vc vv params dt s))))
           (max_t params) 0"
  by (simp add: airspeed_with_throttle_hold_def Let_def airspeed_effort_def)

lemma airspeed_with_throttle_hold_integrator:
  "at_integrator (snd (airspeed_with_throttle_hold vc vv params dt s))
     = (if \<bar>a_t_ki params\<bar> \<ge> 0.00001
        then at_integrator s + (dt / 2) * ((vc - vv) + at_error s)
             + (dt / a_t_ki params)
               * (fst (airspeed_with_throttle_hold vc vv params dt s)
                  - airspeed_effort params (vc - vv) (at_integrator s + (dt / 2) * ((vc - vv) + at_error s))
                      (at_differentiator (snd (airspeed_with_throttle_hold vc vv params dt s))))
        else at_integrator s + (dt / 2) * ((vc - vv) + at_error s))"
  by (simp add: airspeed_with_throttle_hold_def Let_def airspeed_effort_def)

lemma airspeed_with_throttle_hold_windup:
  assumes "\<bar>a_t_ki params\<bar> \<ge> 0.00001"
  shows "airspeed_effort params (vc - vv) (at_integrator (snd (airspeed_with_throttle_hold vc vv params dt s)))
           (at_differentiator (snd (airspeed_with_throttle_hold vc vv params dt s)))
       = airspeed_effort params (vc - vv) (at_integrator s + (dt / 2) * ((vc - vv) + at_error s))
           (at_differentiator (snd (airspeed_with_throttle_hold vc vv params dt s)))
         + dt * (fst (airspeed_with_throttle_hold vc vv params dt s)
                 - airspeed_effort params (vc - vv) (at_integrator s + (dt / 2) * ((vc - vv) + at_error s))
                     (at_differentiator (snd (airspeed_with_throttle_hold vc vv params dt s))))"
proof -
  define i1 where "i1 = at_integrator s + (dt / 2) * ((vc - vv) + at_error s)"
  define out where "out = fst (airspeed_with_throttle_hold vc vv params dt s)"
  define dv where "dv = at_differentiator (snd (airspeed_with_throttle_hold vc vv params dt s))"
  define u where "u = airspeed_effort params (vc - vv) i1 dv"
  have nz: "a_t_ki params \<noteq> 0" using assms by auto
  have "at_integrator (snd (airspeed_with_throttle_hold vc vv params dt s))
      = i1 + (dt / a_t_ki params) * (out - u)"
    unfolding airspeed_with_throttle_hold_integrator i1_def out_def u_def dv_def using assms by simp
  then have "airspeed_effort params (vc - vv)
        (at_integrator (snd (airspeed_with_throttle_hold vc vv params dt s))) dv
      = u + (a_t_ki params * (i1 + (dt / a_t_ki params) * (out - u)) - a_t_ki params * i1)"
    by (simp add: airspeed_effort_def u_def)
  also have "\<dots> = u + dt * (out - u)"
    by (simp only: windup_algebra [OF nz])
  finally show ?thesis unfolding u_def i1_def out_def dv_def .
qed

lemma altitude_band: "(- alt_hz params + 0.01 < e \<and> e < alt_hz params - 0.01) = (\<bar>e\<bar> < alt_hz params - 0.01)"
  by auto

lemma altitude_hold_control_fst:
  "fst (altitude_hold_control hc hh params dt s)
     = sat (altitude_effort params (hc - hh) (altitude_integrated params (hc - hh) dt s)
              (a_differentiator (snd (altitude_hold_control hc hh params dt s))))
           (10.0 * 3.14 / 180.0) (- 10.0 * 3.14 / 180.0)"
  unfolding altitude_hold_control_def Let_def altitude_effort_def altitude_integrated_def altitude_band
  by simp

lemma altitude_hold_control_integrator:
  "a_integrator (snd (altitude_hold_control hc hh params dt s))
     = (if \<bar>a_ki params\<bar> \<ge> 0.00001
        then altitude_integrated params (hc - hh) dt s
             + (dt / a_ki params)
               * (fst (altitude_hold_control hc hh params dt s)
                  - altitude_effort params (hc - hh) (altitude_integrated params (hc - hh) dt s)
                      (a_differentiator (snd (altitude_hold_control hc hh params dt s))))
        else altitude_integrated params (hc - hh) dt s)"
  unfolding altitude_hold_control_def Let_def altitude_effort_def altitude_integrated_def altitude_band
  by simp

lemma altitude_hold_control_windup:
  assumes "\<bar>a_ki params\<bar> \<ge> 0.00001"
  shows "altitude_effort params (hc - hh) (a_integrator (snd (altitude_hold_control hc hh params dt s)))
           (a_differentiator (snd (altitude_hold_control hc hh params dt s)))
       = altitude_effort params (hc - hh) (altitude_integrated params (hc - hh) dt s)
           (a_differentiator (snd (altitude_hold_control hc hh params dt s)))
         + dt * (fst (altitude_hold_control hc hh params dt s)
                 - altitude_effort params (hc - hh) (altitude_integrated params (hc - hh) dt s)
                     (a_differentiator (snd (altitude_hold_control hc hh params dt s))))"
proof -
  define i1 where "i1 = altitude_integrated params (hc - hh) dt s"
  define out where "out = fst (altitude_hold_control hc hh params dt s)"
  define dv where "dv = a_differentiator (snd (altitude_hold_control hc hh params dt s))"
  define u where "u = altitude_effort params (hc - hh) i1 dv"
  have nz: "a_ki params \<noteq> 0" using assms by auto
  have "a_integrator (snd (altitude_hold_control hc hh params dt s))
      = i1 + (dt / a_ki params) * (out - u)"
    unfolding altitude_hold_control_integrator i1_def out_def u_def dv_def using assms by simp
  then have "altitude_effort params (hc - hh)
        (a_integrator (snd (altitude_hold_control hc hh params dt s))) dv
      = u + (a_ki params * (i1 + (dt / a_ki params) * (out - u)) - a_ki params * i1)"
    by (simp add: altitude_effort_def u_def)
  also have "\<dots> = u + dt * (out - u)"
    by (simp only: windup_algebra [OF nz])
  finally show ?thesis unfolding u_def i1_def out_def dv_def .
qed

text \<open>
  Claim C2, as stated, fails. Roll loop, unit gains, \<open>max_a = 1\<close>, zero state, commanded
  roll 4, sample period 1/2: the unsaturated effort is 5, above the bound, and
  \<open>r_ki = 1\<close>; the output is the clamped 1, but the effort recomputed from the stored
  integrator is 3, not 1.
\<close>

theorem anti_windup_counterexample:
  "\<bar>r_ki unit_params\<bar> \<ge> 0.00001
   \<and> roll_effort unit_params (4 - 0) (r_integrator zero_state + ((1/2) / 2) * ((4 - 0) + r_error zero_state)) 0 = 5
   \<and> 5 > max_a unit_params
   \<and> fst (roll_hold 4 0 0 unit_params (1/2) zero_state) = 1
   \<and> roll_effort unit_params (4 - 0) (r_integrator (snd (roll_hold 4 0 0 unit_params (1/2) zero_state))) 0 = 3
   \<and> roll_effort unit_params (4 - 0) (r_integrator (snd (roll_hold 4 0 0 unit_params (1/2) zero_state))) 0
       \<noteq> fst (roll_hold 4 0 0 unit_params (1/2) zero_state)"
  by (simp add: roll_hold_def roll_effort_def unit_params_def zero_state_def sat_def Let_def)

text \<open>
  Claim C2, amended. For every loop and every tick with \<open>\<bar>Ki\<bar> \<ge> 0.00001\<close>, the effort
  recomputed without clamping from the integrator the tick stores (same error, derivative
  and bias terms) equals \<open>u + Ts * (out - u)\<close>, where \<open>u\<close> is the unsaturated effort of
  the tick and \<open>out = sat u\<close> its clamped output (for the pitch loop, the clamped value
  before the negation on return): the step moves the recomputed effort from \<open>u\<close> towards
  the clamped output by the fraction \<open>Ts\<close>, and reaches it when \<open>Ts = 1\<close> or nothing was
  clamped. With \<open>\<bar>Ki\<bar> < 0.00001\<close> the stored integrator is the one the integration step
  produced.
\<close>

theorem anti_windup_recompute:
  "(\<bar>c_ki params\<bar> \<ge> 0.00001 \<longrightarrow>
      course_effort params (cc - ch) (c_integrator (snd (course_hold cc ch ff rr params dt s))) rr ff
      = course_effort params (cc - ch) (c_integrator s + (dt / 2) * ((cc - ch) + c_error s)) rr ff
        + dt * (fst (course_hold cc ch ff rr params dt s)
                - course_effort params (cc - ch) (c_integrator s + (dt / 2) * ((cc - ch) + c_error s)) rr ff))
   \<and> (\<bar>c_ki params\<bar> < 0.00001 \<longrightarrow>
      c_integrator (snd (course_hold cc ch ff rr params dt s))
      = c_integrator s + (dt / 2) * ((cc - ch) + c_error s))
   \<and> fst (course_hold cc ch ff rr params dt s)
      = sat (course_effort params (cc - ch) (c_integrator s + (dt / 2) * ((cc - ch) + c_error s)) rr ff)
            (15.0 * 3.14 / 180.0) (- 15.0 * 3.14 / 180.0)
   \<and> (\<bar>r_ki params\<bar> \<ge> 0.00001 \<longrightarrow>
      roll_effort params (pc - ph) (r_integrator (snd (roll_hold pc ph pp params dt s))) pp
      = roll_effort params (pc - ph) (r_integrator s + (dt / 2) * ((pc - ph) + r_error s)) pp
        + dt * (fst (roll_hold pc ph pp params dt s)
                - roll_effort params (pc - ph) (r_integrator s + (dt / 2) * ((pc - ph) + r_error s)) pp))
   \<and> (\<bar>r_ki params\<bar> < 0.00001 \<longrightarrow>
      r_integrator (snd (roll_hold pc ph pp params dt s))
      = r_integrator s + (dt / 2) * ((pc - ph) + r_error s))
   \<and> fst (roll_hold pc ph pp params dt s)
      = sat (roll_effort params (pc - ph) (r_integrator s + (dt / 2) * ((pc - ph) + r_error s)) pp)
            (max_a params) (- max_a params)
   \<and> (\<bar>p_ki params\<bar> \<ge> 0.00001 \<longrightarrow>
      pitch_effort params (tc - th) (p_integrator (snd (pitch_hold tc th qq params dt s))) qq
      = pitch_effort params (tc - th) (p_integrator s + (dt / 2) * ((tc - th) + p_error s)) qq
        + dt * (- fst (pitch_hold tc th qq params dt s)
                - pitch_effort params (tc - th) (p_integrator s + (dt / 2) * ((tc - th) + p_error s)) qq))
   \<and> (\<bar>p_ki params\<bar> < 0.00001 \<longrightarrow>
      p_integrator (snd (pitch_hold tc th qq params dt s))
      = p_integrator s + (dt / 2) * ((tc - th) + p_error s))
   \<and> - fst (pitch_hold tc th qq params dt s)
      = sat (pitch_effort params (tc - th) (p_integrator s + (dt / 2) * ((tc - th) + p_error s)) qq)
            (max_e params) (- max_e params)
   \<and> (\<bar>a_t_ki params\<bar> \<ge> 0.00001 \<longrightarrow>
      airspeed_effort params (vc - vv) (at_integrator (snd (airspeed_with_throttle_hold vc vv params dt s)))
        (at_differentiator (snd (airspeed_with_throttle_hold vc vv params dt s)))
      = airspeed_effort params (vc - vv) (at_integrator s + (dt / 2) * ((vc - vv) + at_error s))
          (at_differentiator (snd (airspeed_with_throttle_hold vc vv params dt s)))
        + dt * (fst (airspeed_with_throttle_hold vc vv params dt s)
                - airspeed_effort params (vc - vv) (at_integrator s + (dt / 2) * ((vc - vv) + at_error s))
                    (at_differentiator (snd (airspeed_with_throttle_hold vc vv params dt s)))))
   \<and> (\<bar>a_t_ki params\<bar> < 0.00001 \<longrightarrow>
      at_integrator (snd (airspeed_with_throttle_hold vc vv params dt s))
      = at_integrator s + (dt / 2) * ((vc - vv) + at_error s))
   \<and> fst (airspeed_with_throttle_hold vc vv params dt s)
      = sat (airspeed_effort params (vc - vv) (at_integrator s + (dt / 2) * ((vc - vv) + at_error s))
               (at_differentiator (snd (airspeed_with_throttle_hold vc vv params dt s))))
            (max_t params) 0
   \<and> (\<bar>a_ki params\<bar> \<ge> 0.00001 \<longrightarrow>
      altitude_effort params (hc - hh) (a_integrator (snd (altitude_hold_control hc hh params dt s)))
        (a_differentiator (snd (altitude_hold_control hc hh params dt s)))
      = altitude_effort params (hc - hh) (altitude_integrated params (hc - hh) dt s)
          (a_differentiator (snd (altitude_hold_control hc hh params dt s)))
        + dt * (fst (altitude_hold_control hc hh params dt s)
                - altitude_effort params (hc - hh) (altitude_integrated params (hc - hh) dt s)
                    (a_differentiator (snd (altitude_hold_control hc hh params dt s)))))
   \<and> (\<bar>a_ki params\<bar> < 0.00001 \<longrightarrow>
      a_integrator (snd (altitude_hold_control hc hh params dt s))
      = altitude_integrated params (hc - hh) dt s)
   \<and> fst (altitude_hold_control hc hh params dt s)
      = sat (altitude_effort params (hc - hh) (altitude_integrated params (hc - hh) dt s)
               (a_differentiator (snd (altitude_hold_control hc hh params dt s))))
            (10.0 * 3.14 / 180.0) (- 10.0 * 3.14 / 180.0)"
proof (intro conjI impI)
  show "fst (course_hold cc ch ff rr params dt s)
      = sat (course_effort params (cc - ch) (c_integrator s + (dt / 2) * ((cc - ch) + c_error s)) rr ff)
            (15.0 * 3.14 / 180.0) (- 15.0 * 3.14 / 180.0)"
    by (rule course_hold_fst)
  show "fst (roll_hold pc ph pp params dt s)
      = sat (roll_effort params (pc - ph) (r_integrator s + (dt / 2) * ((pc - ph) + r_error s)) pp)
            (max_a params) (- max_a params)"
    by (rule roll_hold_fst)
  show "- fst (pitch_hold tc th qq params dt s)
      = sat (pitch_effort params (tc - th) (p_integrator s + (dt / 2) * ((tc - th) + p_error s)) qq)
            (max_e params) (- max_e params)"
    by (simp add: pitch_hold_fst)
  show "fst (airspeed_with_throttle_hold vc vv params dt s)
      = sat (airspeed_effort params (vc - vv) (at_integrator s + (dt / 2) * ((vc - vv) + at_error s))
               (at_differentiator (snd (airspeed_with_throttle_hold vc vv params dt s))))
            (max_t params) 0"
    by (rule airspeed_with_throttle_hold_fst)
  show "fst (altitude_hold_control hc hh params dt s)
      = sat (altitude_effort params (hc - hh) (altitude_integrated params (hc - hh) dt s)
               (a_differentiator (snd (altitude_hold_control hc hh params dt s))))
            (10.0 * 3.14 / 180.0) (- 10.0 * 3.14 / 180.0)"
    by (rule altitude_hold_control_fst)
qed (simp_all only: course_hold_windup roll_hold_windup pitch_hold_windup
       airspeed_with_throttle_hold_windup altitude_hold_control_windup,
     simp_all add: course_hold_integrator roll_hold_integrator pitch_hold_integrator
       airspeed_with_throttle_hold_integrator altitude_hold_control_integrator)

theorem anti_windup_recompute_witness:
  "\<bar>r_ki unit_params\<bar> \<ge> 0.00001
   \<and> roll_effort unit_params (4 - 0) (r_integrator zero_state + ((1/2) / 2) * ((4 - 0) + r_error zero_state)) 0 = 5
   \<and> fst (roll_hold 4 0 0 unit_params (1/2) zero_state) = 1
   \<and> roll_effort unit_params (4 - 0) (r_integrator (snd (roll_hold 4 0 0 unit_params (1/2) zero_state))) 0
       = 5 + (1/2) * (1 - 5)
   \<and> \<bar>r_ki zero_params\<bar> < 0.00001
   \<and> r_integrator (snd (roll_hold 4 0 0 zero_params (1/2) zero_state)) = 1"
proof -
  have k: "\<bar>r_ki unit_params\<bar> \<ge> 0.00001" "\<bar>r_ki zero_params\<bar> < 0.00001"
    by (simp_all add: unit_params_def zero_params_def)
  have u: "roll_effort unit_params (4 - 0) (r_integrator zero_state + ((1/2) / 2) * ((4 - 0) + r_error zero_state)) 0 = 5"
    by (simp add: roll_effort_def unit_params_def zero_state_def)
  have o: "fst (roll_hold 4 0 0 unit_params (1/2) zero_state) = 1"
    by (simp add: roll_hold_def unit_params_def zero_state_def sat_def Let_def)
  have z: "r_integrator zero_state + ((1/2) / 2) * ((4 - 0) + r_error zero_state) = 1"
    by (simp add: zero_state_def)
  show ?thesis
    using k u o z
      anti_windup_recompute [where params = unit_params and s = zero_state and pc = 4
        and ph = 0 and pp = 0 and dt = "1/2"]
      anti_windup_recompute [where params = zero_params and s = zero_state and pc = 4
        and ph = 0 and pp = 0 and dt = "1/2"]
    by simp
qed

subsection \<open>The altitude loop's integrator\<close>

text \<open>
  Claim C1, as stated, fails in both halves. Hold zone 10, all gains zero, integrator 5,
  previous error 1, sample period 1: at error 10 (on the edge of the zone) the tick does
  not leave the integrator at 5 but sets it to 0; at error 2 (well inside) the tick does
  not reset it but advances it to 13/2.
\<close>

theorem altitude_integrator_counterexample:
  "a_integrator (zero_state\<lparr>a_integrator := 5, a_error := 1\<rparr>) = 5
   \<and> \<bar>10 - 0\<bar> \<ge> alt_hz (zero_params\<lparr>alt_hz := 10\<rparr>) - 0.01
   \<and> a_integrator (snd (altitude_hold_control 10 0 (zero_params\<lparr>alt_hz := 10\<rparr>) 1
         (zero_state\<lparr>a_integrator := 5, a_error := 1\<rparr>))) = 0
   \<and> a_integrator (snd (altitude_hold_control 10 0 (zero_params\<lparr>alt_hz := 10\<rparr>) 1
         (zero_state\<lparr>a_integrator := 5, a_error := 1\<rparr>)))
       \<noteq> a_integrator (zero_state\<lparr>a_integrator := 5, a_error := 1\<rparr>)
   \<and> \<bar>2 - 0\<bar> < alt_hz (zero_params\<lparr>alt_hz := 10\<rparr>) - 0.01
   \<and> a_integrator (snd (altitude_hold_control 2 0 (zero_params\<lparr>alt_hz := 10\<rparr>) 1
         (zero_state\<lparr>a_integrator := 5, a_error := 1\<rparr>))) = 13 / 2
   \<and> a_integrator (snd (altitude_hold_control 2 0 (zero_params\<lparr>alt_hz := 10\<rparr>) 1
         (zero_state\<lparr>a_integrator := 5, a_error := 1\<rparr>))) \<noteq> 0"
  by (simp add: altitude_hold_control_def zero_params_def zero_state_def sat_def Let_def)

lemma sat_id: "\<bar>v\<bar> \<le> m \<Longrightarrow> sat v m (- m) = v"
  by (auto simp add: sat_def)

text \<open>
  Claim C1, amended. On every tick of the altitude loop the integration step advances the
  integrator by \<open>(Ts / 2) * (error + a_error)\<close> when \<open>\<bar>error\<bar> < alt_hz - 0.01\<close> and sets
  it to 0 otherwise; the integrator the tick stores is that value, plus the anti-windup
  term \<open>(Ts / a_ki) * (out - u)\<close> when \<open>\<bar>a_ki\<bar> \<ge> 0.00001\<close>. In particular, within 0.01
  of the edge of the hold zone or beyond it, a tick whose effort is not clamped stores
  exactly 0.
\<close>

theorem altitude_integrator_band:
  "(\<bar>a_ki params\<bar> < 0.00001 \<longrightarrow>
      a_integrator (snd (altitude_hold_control hc hh params dt s))
      = (if \<bar>hc - hh\<bar> < alt_hz params - 0.01
         then a_integrator s + (dt / 2) * ((hc - hh) + a_error s) else 0))
   \<and> (\<bar>a_ki params\<bar> \<ge> 0.00001 \<longrightarrow>
      a_integrator (snd (altitude_hold_control hc hh params dt s))
      = (if \<bar>hc - hh\<bar> < alt_hz params - 0.01
         then a_integrator s + (dt / 2) * ((hc - hh) + a_error s) else 0)
        + (dt / a_ki params)
          * (fst (altitude_hold_control hc hh params dt s)
             - altitude_effort params (hc - hh)
                 (if \<bar>hc - hh\<bar> < alt_hz params - 0.01
                  then a_integrator s + (dt / 2) * ((hc - hh) + a_error s) else 0)
                 (a_differentiator (snd (altitude_hold_control hc hh params dt s)))))
   \<and> (\<bar>hc - hh\<bar> \<ge> alt_hz params - 0.01
        \<and> \<bar>altitude_effort params (hc - hh) 0
              (a_differentiator (snd (altitude_hold_control hc hh params dt s)))\<bar>
            \<le> 10.0 * 3.14 / 180.0 \<longrightarrow>
      a_integrator (snd (altitude_hold_control hc hh params dt s)) = 0)"
proof (intro conjI impI)
  assume "\<bar>a_ki params\<bar> < 0.00001"
  then show "a_integrator (snd (altitude_hold_control hc hh params dt s))
      = (if \<bar>hc - hh\<bar> < alt_hz params - 0.01
         then a_integrator s + (dt / 2) * ((hc - hh) + a_error s) else 0)"
    by (simp add: altitude_hold_control_integrator altitude_integrated_def)
next
  assume "\<bar>a_ki params\<bar> \<ge> 0.00001"
  then show "a_integrator (snd (altitude_hold_control hc hh params dt s))
      = (if \<bar>hc - hh\<bar> < alt_hz params - 0.01
         then a_integrator s + (dt / 2) * ((hc - hh) + a_error s) else 0)
        + (dt / a_ki params)
          * (fst (altitude_hold_control hc hh params dt s)
             - altitude_effort params (hc - hh)
                 (if \<bar>hc - hh\<bar> < alt_hz params - 0.01
                  then a_integrator s + (dt / 2) * ((hc - hh) + a_error s) else 0)
                 (a_differentiator (snd (altitude_hold_control hc hh params dt s))))"
    by (simp only: altitude_hold_control_integrator altitude_integrated_def if_True)
next
  assume a: "\<bar>hc - hh\<bar> \<ge> alt_hz params - 0.01
        \<and> \<bar>altitude_effort params (hc - hh) 0
              (a_differentiator (snd (altitude_hold_control hc hh params dt s)))\<bar>
            \<le> 10.0 * 3.14 / 180.0"
  then have i0: "altitude_integrated params (hc - hh) dt s = 0"
    by (simp add: altitude_integrated_def)
  have "fst (altitude_hold_control hc hh params dt s)
      = altitude_effort params (hc - hh) 0
          (a_differentiator (snd (altitude_hold_control hc hh params dt s)))"
    using a sat_id [of "altitude_effort params (hc - hh) 0
          (a_differentiator (snd (altitude_hold_control hc hh params dt s)))" "10.0 * 3.14 / 180.0"]
    by (simp add: altitude_hold_control_fst i0)
  then show "a_integrator (snd (altitude_hold_control hc hh params dt s)) = 0"
    by (simp add: altitude_hold_control_integrator i0)
qed

theorem altitude_integrator_band_witness:
  "\<bar>a_ki (zero_params\<lparr>alt_hz := 10\<rparr>)\<bar> < 0.00001
   \<and> \<not> \<bar>10 - 0\<bar> < alt_hz (zero_params\<lparr>alt_hz := 10\<rparr>) - 0.01
   \<and> a_integrator (snd (altitude_hold_control 10 0 (zero_params\<lparr>alt_hz := 10\<rparr>) 1
         (zero_state\<lparr>a_integrator := 5, a_error := 1\<rparr>))) = 0
   \<and> \<bar>2 - 0\<bar> < alt_hz (zero_params\<lparr>alt_hz := 10\<rparr>) - 0.01
   \<and> a_integrator (snd (altitude_hold_control 2 0 (zero_params\<lparr>alt_hz := 10\<rparr>) 1
         (zero_state\<lparr>a_integrator := 5, a_error := 1\<rparr>))) = 5 + (1 / 2) * ((2 - 0) + 1)
   \<and> \<bar>a_ki (zero_params\<lparr>alt_hz := 10, a_ki := 1\<rparr>)\<bar> \<ge> 0.00001
   \<and> \<bar>10 - 0\<bar> \<ge> alt_hz (zero_params\<lparr>alt_hz := 10, a_ki := 1\<rparr>) - 0.01
   \<and> a_integrator (snd (altitude_hold_control 10 0 (zero_params\<lparr>alt_hz := 10, a_ki := 1\<rparr>) 1
         (zero_state\<lparr>a_integrator := 5, a_error := 1\<rparr>))) = 0"
proof -
  have p: "\<bar>a_ki (zero_params\<lparr>alt_hz := 10\<rparr>)\<bar> < 0.00001"
    "\<not> \<bar>10 - 0\<bar> < alt_hz (zero_params\<lparr>alt_hz := 10\<rparr>) - 0.01"
    "\<bar>2 - 0\<bar> < alt_hz (zero_params\<lparr>alt_hz := 10\<rparr>) - 0.01"
    "\<bar>a_ki (zero_params\<lparr>alt_hz := 10, a_ki := 1\<rparr>)\<bar> \<ge> 0.00001"
    "\<bar>10 - 0\<bar> \<ge> alt_hz (zero_params\<lparr>alt_hz := 10, a_ki := 1\<rparr>) - 0.01"
    by (simp_all add: zero_params_def)
  have e: "\<bar>altitude_effort (zero_params\<lparr>alt_hz := 10, a_ki := 1\<rparr>) (10 - 0) 0
              (a_differentiator (snd (altitude_hold_control 10 0
                 (zero_params\<lparr>alt_hz := 10, a_ki := 1\<rparr>) 1
                 (zero_state\<lparr>a_integrator := 5, a_error := 1\<rparr>))))\<bar> \<le> 10.0 * 3.14 / 180.0"
    by (simp add: altitude_effort_def zero_params_def)
  have s: "a_integrator (zero_state\<lparr>a_integrator := 5, a_error := 1\<rparr>) = 5"
    "a_error (zero_state\<lparr>a_integrator := 5, a_error := 1\<rparr>) = 1"
    by simp_all
  show ?thesis
    using p e s
      altitude_integrator_band [where params = "zero_params\<lparr>alt_hz := 10\<rparr>" and hc = 10
        and hh = 0 and dt = 1 and s = "zero_state\<lparr>a_integrator := 5, a_error := 1\<rparr>"]
      altitude_integrator_band [where params = "zero_params\<lparr>alt_hz := 10\<rparr>" and hc = 2
        and hh = 0 and dt = 1 and s = "zero_state\<lparr>a_integrator := 5, a_error := 1\<rparr>"]
      altitude_integrator_band [where params = "zero_params\<lparr>alt_hz := 10, a_ki := 1\<rparr>"
        and hc = 10 and hh = 0 and dt = 1
        and s = "zero_state\<lparr>a_integrator := 5, a_error := 1\<rparr>"]
    by simp
qed

subsection \<open>Altitude command shaping in the climb and altitude-hold handlers\<close>

lemma shaping:
  assumes "0 \<le> m"
  shows "(if \<bar>hc - hh\<bar> > m then hh + copysign m (hc - hh) else hc)
       = (if \<bar>hc - hh\<bar> \<le> m then hc else hh + sgn (hc - hh) * m)"
  using assms by (auto simp add: copysign_def sgn_real_def)

lemma roll_hold_frame:
  "at_error (snd (roll_hold a b c params t s)) = at_error s
   \<and> at_integrator (snd (roll_hold a b c params t s)) = at_integrator s
   \<and> at_differentiator (snd (roll_hold a b c params t s)) = at_differentiator s"
  by (simp add: roll_hold_def Let_def)

lemma pitch_hold_frame:
  "at_error (snd (pitch_hold a b c params t s)) = at_error s"
  by (simp add: pitch_hold_def Let_def)

lemma course_hold_frame:
  "at_error (snd (course_hold a b c d params t s)) = at_error s"
  by (simp add: course_hold_def Let_def)

lemma altitude_at_error:
  "at_error (snd (altitude_hold_control a b params t s)) = a - b"
  by (simp add: altitude_hold_control_def Let_def)

lemma climb_theta_c:
  "theta_c (fst (climb params input output s))
     = fst (altitude_hold_control
              (if \<bar>h_c input - h input\<bar> > alt_hz params / 2.0
               then h input + copysign (alt_hz params / 2.0) (h_c input - h input)
               else h_c input)
              (h input) params (Ts input)
              (snd (airspeed_with_throttle_hold (Va_c input) (va input) params (Ts input) s)))"
  by (simp add: climb_def Let_def split_beta)

lemma climb_at_error:
  "at_error (snd (climb params input output s))
     = (if \<bar>h_c input - h input\<bar> > alt_hz params / 2.0
        then h input + copysign (alt_hz params / 2.0) (h_c input - h input)
        else h_c input) - h input"
  by (simp add: climb_def Let_def split_beta roll_hold_frame pitch_hold_frame altitude_at_error)

lemma altitude_hold_theta_c:
  "theta_c (fst (altitude_hold params input output s))
     = fst (altitude_hold_control
              (if \<bar>h_c input - h input\<bar> > alt_hz params
               then h input + copysign (alt_hz params) (h_c input - h input)
               else h_c input)
              (h input) params (Ts input)
              (snd (airspeed_with_throttle_hold (Va_c input) (va input) params (Ts input) s)))"
  by (simp add: altitude_hold_def Let_def split_beta)

lemma altitude_hold_at_error:
  "at_error (snd (altitude_hold params input output s))
     = (if \<bar>h_c input - h input\<bar> > alt_hz params
        then h input + copysign (alt_hz params) (h_c input - h input)
        else h_c input) - h input"
  by (simp add: altitude_hold_def Let_def split_beta roll_hold_frame pitch_hold_frame
      course_hold_frame altitude_at_error)

text \<open>
  Claim C5. With a non-negative hold-zone half-width \<open>alt_hz\<close>, the climb handler runs
  the altitude loop on the raw command \<open>h_c\<close> when \<open>\<bar>h_c - h\<bar> \<le> alt_hz / 2\<close> and on
  \<open>h + sgn (h_c - h) * (alt_hz / 2)\<close> otherwise: its \<open>theta_c\<close> is the altitude loop's
  output for that command (on the state the airspeed loop leaves), and the error the
  altitude loop stores is that command minus \<open>h\<close>. The altitude-hold handler does the
  same with \<open>alt_hz\<close> in place of \<open>alt_hz / 2\<close>.
\<close>

theorem altitude_command_shaping:
  assumes "0 \<le> alt_hz params"
  shows "theta_c (fst (climb params input output s))
       = fst (altitude_hold_control
                (if \<bar>h_c input - h input\<bar> \<le> alt_hz params / 2 then h_c input
                 else h input + sgn (h_c input - h input) * (alt_hz params / 2))
                (h input) params (Ts input)
                (snd (airspeed_with_throttle_hold (Va_c input) (va input) params (Ts input) s)))
     \<and> at_error (snd (climb params input output s))
       = (if \<bar>h_c input - h input\<bar> \<le> alt_hz params / 2 then h_c input
          else h input + sgn (h_c input - h input) * (alt_hz params / 2)) - h input
     \<and> theta_c (fst (altitude_hold params input output s))
       = fst (altitude_hold_control
                (if \<bar>h_c input - h input\<bar> \<le> alt_hz params then h_c input
                 else h input + sgn (h_c input - h input) * alt_hz params)
                (h input) params (Ts input)
                (snd (airspeed_with_throttle_hold (Va_c input) (va input) params (Ts input) s)))
     \<and> at_error (snd (altitude_hold params input output s))
       = (if \<bar>h_c input - h input\<bar> \<le> alt_hz params then h_c input
          else h input + sgn (h_c input - h input) * alt_hz params) - h input"
proof -
  have half: "0 \<le> alt_hz params / 2" using assms by simp
  have half_eq: "alt_hz params / 2.0 = alt_hz params / 2" by simp
  show ?thesis
    unfolding climb_theta_c climb_at_error altitude_hold_theta_c altitude_hold_at_error
      half_eq shaping [OF half] shaping [OF assms]
    by (intro conjI refl)
qed

theorem altitude_command_shaping_witness:
  "0 \<le> alt_hz unit_params
   \<and> at_error (snd (climb unit_params (zero_input\<lparr>Ts := 1, h := 100, h_c := 120\<rparr>)
        zero_output zero_state)) = (100 + 1 * (10 / 2)) - 100
   \<and> at_error (snd (climb unit_params (zero_input\<lparr>Ts := 1, h := 100, h_c := 90\<rparr>)
        zero_output zero_state)) = (100 + (- 1) * (10 / 2)) - 100
   \<and> at_error (snd (climb unit_params (zero_input\<lparr>Ts := 1, h := 100, h_c := 103\<rparr>)
        zero_output zero_state)) = 103 - 100
   \<and> at_error (snd (altitude_hold unit_params (zero_input\<lparr>Ts := 1, h := 100, h_c := 120\<rparr>)
        zero_output zero_state)) = (100 + 1 * 10) - 100
   \<and> at_error (snd (altitude_hold unit_params (zero_input\<lparr>Ts := 1, h := 100, h_c := 93\<rparr>)
        zero_output zero_state)) = 93 - 100"
proof -
  have nn: "0 \<le> alt_hz unit_params" by (simp add: unit_params_def)
  have hz: "alt_hz unit_params = 10" by (simp add: unit_params_def)
  show ?thesis
    using nn
      altitude_command_shaping [OF nn, of "zero_input\<lparr>Ts := 1, h := 100, h_c := 120\<rparr>"
        zero_output zero_state]
      altitude_command_shaping [OF nn, of "zero_input\<lparr>Ts := 1, h := 100, h_c := 90\<rparr>"
        zero_output zero_state]
      altitude_command_shaping [OF nn, of "zero_input\<lparr>Ts := 1, h := 100, h_c := 103\<rparr>"
        zero_output zero_state]
      altitude_command_shaping [OF nn, of "zero_input\<lparr>Ts := 1, h := 100, h_c := 93\<rparr>"
        zero_output zero_state]
    by (simp add: hz zero_input_def)
qed

subsection \<open>The take-off handler\<close>

lemma airspeed_after_roll:
  "fst (airspeed_with_throttle_hold a b params t (snd (roll_hold c d e params t' s)))
     = fst (airspeed_with_throttle_hold a b params t s)"
  by (simp add: airspeed_with_throttle_hold_def roll_hold_def Let_def)

lemma take_off_delta_t:
  "delta_t (fst (take_off params input output s))
     = sat (fst (airspeed_with_throttle_hold (Va_c input) (va input) params (Ts input) s))
           (max_takeoff_throttle params) 0"
  by (simp add: take_off_def Let_def split_beta airspeed_after_roll)





subsection \<open>The constructor\<close>

text \<open>
  Claim C4. The constructor body sets the previous error and the integrator of the course,
  roll and pitch loops to zero. It assigns none of the six fields of the airspeed and
  altitude loops, which keep whatever the object held before the body ran: from storage
  with \<open>at_integrator = 1/2\<close> the constructed state has \<open>at_integrator = 1/2\<close>, and the
  first take-off tick (unit gains, zero input, sample period 1) commands throttle 1/2, where
  an all-zero state gives 0.
\<close>

theorem constructor_assigns_six_fields:
  "c_error (controller_example_ctor storage) = 0
   \<and> c_integrator (controller_example_ctor storage) = 0
   \<and> r_error (controller_example_ctor storage) = 0
   \<and> r_integrator (controller_example_ctor storage) = 0
   \<and> p_error (controller_example_ctor storage) = 0
   \<and> p_integrator (controller_example_ctor storage) = 0
   \<and> at_error (controller_example_ctor storage) = at_error storage
   \<and> at_integrator (controller_example_ctor storage) = at_integrator storage
   \<and> at_differentiator (controller_example_ctor storage) = at_differentiator storage
   \<and> a_error (controller_example_ctor storage) = a_error storage
   \<and> a_integrator (controller_example_ctor storage) = a_integrator storage
   \<and> a_differentiator (controller_example_ctor storage) = a_differentiator storage
   \<and> at_integrator (controller_example_ctor (zero_state\<lparr>at_integrator := 1 / 2\<rparr>)) = 1 / 2
   \<and> delta_t (fst (take_off unit_params (zero_input\<lparr>Ts := 1\<rparr>) zero_output
         (controller_example_ctor (zero_state\<lparr>at_integrator := 1 / 2\<rparr>)))) = 1 / 2
   \<and> delta_t (fst (take_off unit_params (zero_input\<lparr>Ts := 1\<rparr>) zero_output zero_state)) = 0"
  by (simp add: controller_example_ctor_def take_off_delta_t airspeed_with_throttle_hold_def
      unit_params_def zero_input_def zero_state_def sat_def Let_def)

subsection \<open>The parameter callback\<close>

lemma callback_step:
  assumes "stored (get_name param) \<noteq> None"
  shows "set_parameters_callback (param # parameters) stored
     = set_parameters_callback parameters
         (case stored_as (get_parameter_value param) of
            Some v \<Rightarrow> stored(get_name param \<mapsto> v) | None \<Rightarrow> stored)"
proof -
  have "set_parameters_callback (param # parameters) stored
     = set_parameters_callback parameters
             (case get_parameter_value param of
                PARAMETER_DOUBLE d \<Rightarrow> stored(get_name param \<mapsto> Double_v d)
              | PARAMETER_BOOL b \<Rightarrow> stored(get_name param \<mapsto> Bool_v b)
              | PARAMETER_INTEGER i \<Rightarrow> stored(get_name param \<mapsto> Int64_v i)
              | PARAMETER_STRING str \<Rightarrow> stored(get_name param \<mapsto> String_v str)
              | _ \<Rightarrow> stored)"
    using assms by (simp only: set_parameters_callback.simps if_False)
  also have "(case get_parameter_value param of
                PARAMETER_DOUBLE d \<Rightarrow> stored(get_name param \<mapsto> Double_v d)
              | PARAMETER_BOOL b \<Rightarrow> stored(get_name param \<mapsto> Bool_v b)
              | PARAMETER_INTEGER i \<Rightarrow> stored(get_name param \<mapsto> Int64_v i)
              | PARAMETER_STRING str \<Rightarrow> stored(get_name param \<mapsto> String_v str)
              | _ \<Rightarrow> stored)
      = (case stored_as (get_parameter_value param) of
            Some v \<Rightarrow> stored(get_name param \<mapsto> v) | None \<Rightarrow> stored)"
    by (cases "get_parameter_value param") simp_all
  finally show ?thesis .
qed

lemma callback_declared:
  assumes "\<forall>param \<in> set parameters. stored (get_name param) \<noteq> None"
  shows "fst (set_parameters_callback parameters stored)
       \<and> (\<forall>n. snd (set_parameters_callback parameters stored) n
              = (case last_stored n parameters of Some v \<Rightarrow> Some v | None \<Rightarrow> stored n))"
  using assms
proof (induction parameters arbitrary: stored)
  case Nil
  show ?case by simp
next
  case (Cons param parameters)
  define stored' where "stored' = (case stored_as (get_parameter_value param) of
            Some v \<Rightarrow> stored(get_name param \<mapsto> v) | None \<Rightarrow> stored)"
  have here: "stored (get_name param) \<noteq> None" using Cons.prems by simp
  have step: "set_parameters_callback (param # parameters) stored
      = set_parameters_callback parameters stored'"
    unfolding stored'_def using here by (rule callback_step)
  have keep: "\<forall>q \<in> set parameters. stored' (get_name q) \<noteq> None"
    using Cons.prems by (auto simp add: stored'_def split: option.splits)
  have ih: "fst (set_parameters_callback parameters stored')
       \<and> (\<forall>n. snd (set_parameters_callback parameters stored') n
              = (case last_stored n parameters of Some v \<Rightarrow> Some v | None \<Rightarrow> stored' n))"
    by (rule Cons.IH [OF keep])
  have upd: "\<And>n. stored' n = (if get_name param = n
        then (case stored_as (get_parameter_value param) of Some v \<Rightarrow> Some v | None \<Rightarrow> stored n)
        else stored n)"
    by (auto simp add: stored'_def split: option.splits)
  show ?case
    unfolding step using ih by (auto simp add: upd split: option.splits)
qed

lemma callback_undeclared:
  assumes "\<forall>param \<in> set pre. stored (get_name param) \<noteq> None"
    and "snd (set_parameters_callback pre stored) (get_name bad) = None"
  shows "set_parameters_callback (pre @ bad # post) stored
       = (False, snd (set_parameters_callback pre stored))"
  using assms
proof (induction pre arbitrary: stored)
  case Nil
  then show ?case by simp
next
  case (Cons param pre)
  define stored' where "stored' = (case stored_as (get_parameter_value param) of
            Some v \<Rightarrow> stored(get_name param \<mapsto> v) | None \<Rightarrow> stored)"
  have here: "stored (get_name param) \<noteq> None" using Cons.prems by simp
  have step: "\<And>ps. set_parameters_callback (param # ps) stored
      = set_parameters_callback ps stored'"
    unfolding stored'_def using here by (rule callback_step)
  have keep: "\<forall>q \<in> set pre. stored' (get_name q) \<noteq> None"
    using Cons.prems by (auto simp add: stored'_def split: option.splits)
  have bad: "snd (set_parameters_callback pre stored') (get_name bad) = None"
    using Cons.prems(2) by (simp only: step)
  show ?case
    using Cons.IH [OF keep bad] by (simp only: append_Cons step)
qed

lemma callback_dom:
  "dom (snd (set_parameters_callback parameters stored)) = dom stored"
proof (induction parameters arbitrary: stored)
  case Nil
  show ?case by simp
next
  case (Cons param parameters)
  show ?case
  proof (cases "stored (get_name param) = None")
    case True
    then show ?thesis by simp
  next
    case False
    have "dom (case stored_as (get_parameter_value param) of
            Some v \<Rightarrow> stored(get_name param \<mapsto> v) | None \<Rightarrow> stored) = dom stored"
      using False by (auto split: option.splits)
    then show ?thesis
      using Cons.IH callback_step [of stored param parameters] False by simp
  qed
qed

text \<open>A getter makes its name a key of the map, whether it returns or throws.\<close>

lemma subscript_dom: "dom (snd (subscript n stored)) = insert n (dom stored)"
  by (auto simp add: subscript_def split: option.splits)

lemma getters_dom:
  "dom (snd (get_double n stored)) = insert n (dom stored)"
  "dom (snd (get_bool n stored)) = insert n (dom stored)"
  "dom (snd (get_int n stored)) = insert n (dom stored)"
  "dom (snd (get_string n stored)) = insert n (dom stored)"
  using subscript_dom [of n stored]
  by (simp_all add: get_double_def get_bool_def get_int_def get_string_def split_beta)

text \<open>
  Claim C10, as stated, fails in both parts. With every name declared the callback returns
  true, but a parameter whose type is none of double, bool, integer and string is not
  stored: the declared double \<open>a\<close> is given a double array, the callback returns true and
  the map is unchanged. And a name that was never declared need not make the callback
  return false: \<open>x\<close> is not declared, a call of \<open>get_double\<close> on it returns 0 and
  inserts it, and the callback then returns true for \<open>x\<close> and stores the value.
\<close>

theorem set_parameters_callback_counterexample:
  "get_name (Parameter ''a'' (PARAMETER_DOUBLE_ARRAY [2]))
     \<in> dom (declare_param ''a'' (Double_v 1) Map.empty)
   \<and> fst (set_parameters_callback [Parameter ''a'' (PARAMETER_DOUBLE_ARRAY [2])]
          (declare_param ''a'' (Double_v 1) Map.empty)) = True
   \<and> snd (set_parameters_callback [Parameter ''a'' (PARAMETER_DOUBLE_ARRAY [2])]
          (declare_param ''a'' (Double_v 1) Map.empty))
       = declare_param ''a'' (Double_v 1) Map.empty
   \<and> get_name (Parameter ''x'' (PARAMETER_DOUBLE 5))
        \<notin> dom (declare_param ''a'' (Double_v 1) Map.empty)
   \<and> fst (get_double ''x'' (declare_param ''a'' (Double_v 1) Map.empty)) = Inr 0
   \<and> fst (set_parameters_callback [Parameter ''x'' (PARAMETER_DOUBLE 5)]
          (snd (get_double ''x'' (declare_param ''a'' (Double_v 1) Map.empty)))) = True
   \<and> snd (set_parameters_callback [Parameter ''x'' (PARAMETER_DOUBLE 5)]
          (snd (get_double ''x'' (declare_param ''a'' (Double_v 1) Map.empty)))) ''x''
       = Some (Double_v 5)"
  by (simp add: declare_param_def get_double_def subscript_def)

text \<open>
  Claim C10, amended. The test the callback makes is whether a name is a key of the stored
  map; declaring a parameter makes its name a key, and so does any call of a getter on the
  name. If every name in the vector is a key, the callback returns true and each entry of
  the map ends as the value of the last parameter of the vector with that name and a type
  among double, bool, integer and string, or as it was if there is no such parameter (a
  parameter of another type changes nothing). If the vector is \<open>pre @ bad # post\<close> with
  every name of \<open>pre\<close> a key and the name of \<open>bad\<close> not a key, the callback returns
  false and the map is the one that processing \<open>pre\<close> alone leaves: the parameters before
  \<open>bad\<close> have been stored, those after it are not looked at. The callback never adds or
  removes a key.
\<close>

theorem set_parameters_callback_result:
  "((\<forall>param \<in> set parameters. get_name param \<in> dom stored) \<longrightarrow>
      fst (set_parameters_callback parameters stored) = True
      \<and> (\<forall>n. snd (set_parameters_callback parameters stored) n
             = (case last_stored n parameters of Some v \<Rightarrow> Some v | None \<Rightarrow> stored n)))
   \<and> ((\<forall>param \<in> set pre. get_name param \<in> dom stored) \<and> get_name bad \<notin> dom stored \<longrightarrow>
      set_parameters_callback (pre @ bad # post) stored
        = (False, snd (set_parameters_callback pre stored))
      \<and> (\<forall>n. snd (set_parameters_callback (pre @ bad # post) stored) n
             = (case last_stored n pre of Some v \<Rightarrow> Some v | None \<Rightarrow> stored n)))
   \<and> dom (snd (set_parameters_callback parameters stored)) = dom stored
   \<and> dom (declare_param k val stored) = insert k (dom stored)
   \<and> dom (snd (get_double k stored)) = insert k (dom stored)
   \<and> dom (snd (get_bool k stored)) = insert k (dom stored)
   \<and> dom (snd (get_int k stored)) = insert k (dom stored)
   \<and> dom (snd (get_string k stored)) = insert k (dom stored)"
proof -
  have one: "fst (set_parameters_callback parameters stored) = True
      \<and> (\<forall>n. snd (set_parameters_callback parameters stored) n
             = (case last_stored n parameters of Some v \<Rightarrow> Some v | None \<Rightarrow> stored n))"
    if a: "\<forall>param \<in> set parameters. get_name param \<in> dom stored"
  proof -
    have a': "\<forall>param \<in> set parameters. stored (get_name param) \<noteq> None"
      using a by (simp add: dom_def)
    show ?thesis using callback_declared [OF a'] by simp
  qed
  have two: "set_parameters_callback (pre @ bad # post) stored
        = (False, snd (set_parameters_callback pre stored))
      \<and> (\<forall>n. snd (set_parameters_callback (pre @ bad # post) stored) n
             = (case last_stored n pre of Some v \<Rightarrow> Some v | None \<Rightarrow> stored n))"
    if b: "(\<forall>param \<in> set pre. get_name param \<in> dom stored) \<and> get_name bad \<notin> dom stored"
  proof -
    have b': "\<forall>param \<in> set pre. stored (get_name param) \<noteq> None"
      using b by (simp add: dom_def)
    have "get_name bad \<notin> dom (snd (set_parameters_callback pre stored))"
      using b by (simp add: callback_dom)
    then have bad: "snd (set_parameters_callback pre stored) (get_name bad) = None"
      by (simp add: dom_def)
    have r: "set_parameters_callback (pre @ bad # post) stored
          = (False, snd (set_parameters_callback pre stored))"
      by (rule callback_undeclared [OF b' bad])
    show ?thesis using callback_declared [OF b'] by (simp add: r)
  qed
  have three: "dom (snd (set_parameters_callback parameters stored)) = dom stored"
    by (rule callback_dom)
  have four: "dom (declare_param k val stored) = insert k (dom stored)"
    by (simp add: declare_param_def)
  show ?thesis using one two three four getters_dom [of k stored] by blast
qed

theorem set_parameters_callback_result_witness:
  "get_name (Parameter ''a'' (PARAMETER_DOUBLE 2)) \<in> dom (declare_param ''a'' (Double_v 1) Map.empty)
   \<and> get_name (Parameter ''b'' (PARAMETER_BOOL True))
        \<notin> dom (declare_param ''a'' (Double_v 1) Map.empty)
   \<and> fst (set_parameters_callback
        [Parameter ''a'' (PARAMETER_DOUBLE 2), Parameter ''b'' (PARAMETER_BOOL True),
         Parameter ''a'' (PARAMETER_DOUBLE 3)]
        (declare_param ''a'' (Double_v 1) Map.empty)) = False
   \<and> snd (set_parameters_callback
        [Parameter ''a'' (PARAMETER_DOUBLE 2), Parameter ''b'' (PARAMETER_BOOL True),
         Parameter ''a'' (PARAMETER_DOUBLE 3)]
        (declare_param ''a'' (Double_v 1) Map.empty)) ''a'' = Some (Double_v 2)
   \<and> declare_param ''a'' (Double_v 1) Map.empty ''a'' = Some (Double_v 1)
   \<and> fst (set_parameters_callback
        [Parameter ''a'' (PARAMETER_DOUBLE 2), Parameter ''a'' (PARAMETER_DOUBLE 3)]
        (declare_param ''a'' (Double_v 1) Map.empty)) = True
   \<and> snd (set_parameters_callback
        [Parameter ''a'' (PARAMETER_DOUBLE 2), Parameter ''a'' (PARAMETER_DOUBLE 3)]
        (declare_param ''a'' (Double_v 1) Map.empty)) ''a'' = Some (Double_v 3)
   \<and> get_name (Parameter ''b'' (PARAMETER_BOOL True))
        \<in> dom (snd (get_bool ''b'' (declare_param ''a'' (Double_v 1) Map.empty)))
   \<and> fst (set_parameters_callback [Parameter ''b'' (PARAMETER_BOOL True)]
        (snd (get_bool ''b'' (declare_param ''a'' (Double_v 1) Map.empty)))) = True"
proof -
  have d: "dom (declare_param ''a'' (Double_v 1) Map.empty) = {''a''}"
    by (simp add: declare_param_def)
  have g: "get_name (Parameter ''b'' (PARAMETER_BOOL True))
        \<in> dom (snd (get_bool ''b'' (declare_param ''a'' (Double_v 1) Map.empty)))"
    using set_parameters_callback_result
      [where stored = "declare_param ''a'' (Double_v 1) Map.empty" and k = "''b''"]
    by simp
  have t: "fst (set_parameters_callback [Parameter ''b'' (PARAMETER_BOOL True)]
        (snd (get_bool ''b'' (declare_param ''a'' (Double_v 1) Map.empty)))) = True"
    using g set_parameters_callback_result
      [where stored = "snd (get_bool ''b'' (declare_param ''a'' (Double_v 1) Map.empty))"
        and parameters = "[Parameter ''b'' (PARAMETER_BOOL True)]"]
    by simp
  show ?thesis
    using d g t
      set_parameters_callback_result [where stored = "declare_param ''a'' (Double_v 1) Map.empty"
        and pre = "[Parameter ''a'' (PARAMETER_DOUBLE 2)]"
        and bad = "Parameter ''b'' (PARAMETER_BOOL True)"
        and post = "[Parameter ''a'' (PARAMETER_DOUBLE 3)]"
        and parameters = "[Parameter ''a'' (PARAMETER_DOUBLE 2), Parameter ''a'' (PARAMETER_DOUBLE 3)]"]
    by (simp add: declare_param_def)
qed

end
